theory Spec2Isabelle
  imports Main
begin

section \<open>The Twilio message server: a model of the send_message tool\<close>

text \<open>
  The repository holds two versions of one program: \<^verbatim>\<open>src/server.ts\<close>, and the file
  \<^verbatim>\<open>src/unnamed/part_000\<close>, which is the same server with a credentials guard, a different
  treatment of error responses and logging added. Both register one tool, \<^verbatim>\<open>send_message\<close>,
  whose handler calls the helper \<^verbatim>\<open>twilioRequest\<close>. The serialisation of the request body
  and the formatting of the answer are the same lines in both files and are modelled once;
  the helper and the handler are modelled once per file, the names of the
  \<^verbatim>\<open>src/server.ts\<close> versions carrying the suffix \<open>_server_ts\<close>.

  Strings are byte strings (the UTF-8 encoding of well-formed text). Writes to the console
  are not modelled.
\<close>

subsection \<open>JavaScript values\<close>

text \<open>
  The values the program handles are JSON data: the tool's parameters and the parsed
  response bodies. The number type is left open (\<open>'n\<close>); what the engine does with a
  number is part of the platform below. An object is the list of its own properties in
  enumeration order, as \<^verbatim>\<open>Object.entries\<close> gives them.
\<close>

datatype 'n jsval =
    JUndefined
  | JNull
  | JBool bool
  | JNum 'n
  | JStr string
  | JArr "'n jsval list"
  | JObj "(string \<times> 'n jsval) list"

text \<open>Every value the program throws or sees thrown is an \<^verbatim>\<open>Error\<close> object; its message is kept.\<close>

datatype jserror = JsError (message: string)

datatype http_method = POST | GET

record http_request =
  req_url :: string
  req_method :: http_method
  req_headers :: "(string \<times> string) list"
  req_body :: "string option"

text \<open>
  A response as the program reads it: \<^verbatim>\<open>response.ok\<close>, \<^verbatim>\<open>response.status\<close>,
  \<^verbatim>\<open>response.statusText\<close>, and the result of reading the body as text, which is an error
  when the connection breaks while the body is read.
\<close>

record 'n http_response =
  resp_ok :: bool
  resp_status :: 'n
  resp_statusText :: string
  resp_text :: "jserror + string"

text \<open>
  What the program takes from the engine and the network: the rendering and the truth
  value of a number, the messages of the two \<^verbatim>\<open>TypeError\<close>s the engine can raise in this
  code (converting an object that has no usable \<^verbatim>\<open>toString\<close>; reading a property, given by
  its name, of \<^verbatim>\<open>null\<close> or \<^verbatim>\<open>undefined\<close>, given as that word), \<^verbatim>\<open>JSON.parse\<close>, and \<^verbatim>\<open>fetch\<close>, whose \<open>Inl\<close> is a rejected promise (connection
  refused, timeout, DNS).
\<close>

record 'n platform =
  Number_toString :: "'n \<Rightarrow> string"
  Number_truthy :: "'n \<Rightarrow> bool"
  TypeError_primitive :: string
  TypeError_property :: "string \<Rightarrow> string \<Rightarrow> string"
  JSON_parse :: "string \<Rightarrow> jserror + 'n jsval"
  fetch :: "http_request \<Rightarrow> jserror + 'n http_response"

text \<open>The configuration the host passes in; a field, or the whole object, may be missing.\<close>

record TwilioConfig =
  accountSid :: "string option"
  apiKey :: "string option"
  apiSecret :: "string option"

datatype content_block = TextBlock string

text \<open>The handler's result. \<open>isError\<close> is false where the returned object has no such key.\<close>

record tool_result =
  content :: "content_block list"
  isError :: bool

subsection \<open>Conversions of the language\<close>

fun sequence :: "('e + 'a) list \<Rightarrow> 'e + 'a list" where
  "sequence [] = Inr []"
| "sequence (Inl e # rs) = Inl e"
| "sequence (Inr x # rs) = (case sequence rs of Inl e \<Rightarrow> Inl e | Inr xs \<Rightarrow> Inr (x # xs))"

text \<open>\<^verbatim>\<open>Array.prototype.join\<close> on strings.\<close>

fun join :: "string \<Rightarrow> string list \<Rightarrow> string" where
  "join sep [] = []"
| "join sep [x] = x"
| "join sep (x # y # ys) = x @ sep @ join sep (y # ys)"

text \<open>
  \<^verbatim>\<open>String(v)\<close> and the conversion inside a template literal. An array is joined with
  commas, \<^verbatim>\<open>null\<close> and \<^verbatim>\<open>undefined\<close> elements giving the empty string. A plain object gives
  \<^verbatim>\<open>[object Object]\<close>, unless it has an own property named \<^verbatim>\<open>toString\<close>, which for JSON data
  is never callable: then the conversion throws a \<^verbatim>\<open>TypeError\<close>.
\<close>

fun ToString :: "'n platform \<Rightarrow> 'n jsval \<Rightarrow> jserror + string" where
  "ToString P JUndefined = Inr ''undefined''"
| "ToString P JNull = Inr ''null''"
| "ToString P (JBool b) = Inr (if b then ''true'' else ''false'')"
| "ToString P (JNum n) = Inr (Number_toString P n)"
| "ToString P (JStr s) = Inr s"
| "ToString P (JArr xs) =
     (case sequence (map (\<lambda>x. if x = JUndefined \<or> x = JNull then Inr [] else ToString P x) xs) of
        Inl e \<Rightarrow> Inl e
      | Inr ss \<Rightarrow> Inr (join '','' ss))"
| "ToString P (JObj kvs) =
     (if ''toString'' \<in> fst ` set kvs then Inl (JsError (TypeError_primitive P))
      else Inr ''[object Object]'')"

text \<open>The truth value of a value in a condition.\<close>

fun truthy :: "'n platform \<Rightarrow> 'n jsval \<Rightarrow> bool" where
  "truthy P JUndefined = False"
| "truthy P JNull = False"
| "truthy P (JBool b) = b"
| "truthy P (JNum n) = Number_truthy P n"
| "truthy P (JStr s) = (s \<noteq> [])"
| "truthy P (JArr xs) = True"
| "truthy P (JObj kvs) = True"

text \<open>
  Reading a property. On \<^verbatim>\<open>null\<close> and \<^verbatim>\<open>undefined\<close> it throws. The names the program reads
  (\<^verbatim>\<open>sid\<close>, \<^verbatim>\<open>status\<close>, \<^verbatim>\<open>to\<close>, \<^verbatim>\<open>from\<close>, \<^verbatim>\<open>error_message\<close>, \<^verbatim>\<open>code\<close>, \<^verbatim>\<open>message\<close>,
  \<^verbatim>\<open>more_info\<close>) are inherited by no value, so the answer is the own property of an object
  and \<^verbatim>\<open>undefined\<close> otherwise.
\<close>

fun get_property :: "'n platform \<Rightarrow> 'n jsval \<Rightarrow> string \<Rightarrow> jserror + 'n jsval" where
  "get_property P JUndefined k = Inl (JsError (TypeError_property P ''undefined'' k))"
| "get_property P JNull k = Inl (JsError (TypeError_property P ''null'' k))"
| "get_property P (JObj kvs) k = Inr (case map_of kvs k of None \<Rightarrow> JUndefined | Some v \<Rightarrow> v)"
| "get_property P v k = Inr JUndefined"

text \<open>A template substitution of a property: \<^verbatim>\<open>${response.sid}\<close>.\<close>

definition property_text :: "'n platform \<Rightarrow> 'n jsval \<Rightarrow> string \<Rightarrow> jserror + string" where
  "property_text P obj k =
     (case get_property P obj k of Inl e \<Rightarrow> Inl e | Inr v \<Rightarrow> ToString P v)"

text \<open>A template substitution of a configuration field, \<^verbatim>\<open>undefined\<close> when it is missing.\<close>

definition field_text :: "string option \<Rightarrow> string" where
  "field_text f = (case f of None \<Rightarrow> ''undefined'' | Some s \<Rightarrow> s)"

definition field_truthy :: "string option \<Rightarrow> bool" where
  "field_truthy f = (case f of None \<Rightarrow> False | Some s \<Rightarrow> s \<noteq> [])"

subsection \<open>Base64\<close>

text \<open>\<^verbatim>\<open>Buffer.from(s).toString('base64')\<close>: three bytes give four characters, with padding.\<close>

definition base64_char :: "nat \<Rightarrow> char" where
  "base64_char n =
     ''ABCDEFGHIJKLMNOPQRSTUVWXYZabcdefghijklmnopqrstuvwxyz0123456789+/'' ! (n mod 64)"

fun base64 :: "string \<Rightarrow> string" where
  "base64 (a # b # c # rest) =
     (let n = of_char a * 65536 + of_char b * 256 + (of_char c :: nat)
      in [base64_char (n div 262144), base64_char (n div 4096), base64_char (n div 64),
          base64_char n] @ base64 rest)"
| "base64 [a, b] =
     (let n = of_char a * 65536 + of_char b * (256 :: nat)
      in [base64_char (n div 262144), base64_char (n div 4096), base64_char (n div 64), CHR ''=''])"
| "base64 [a] =
     (let n = of_char a * (65536 :: nat)
      in [base64_char (n div 262144), base64_char (n div 4096), CHR ''='', CHR ''=''])"
| "base64 [] = []"

subsection \<open>The form body: \<^verbatim>\<open>URLSearchParams\<close>\<close>

text \<open>
  \<^verbatim>\<open>URLSearchParams\<close> is a list of name-value tuples. \<^verbatim>\<open>toString\<close> is the
  \<^verbatim>\<open>application/x-www-form-urlencoded\<close> serialiser of the URL standard: a byte is kept when it
  is an ASCII letter or digit or one of \<^verbatim>\<open>* - . _\<close>, a space becomes \<^verbatim>\<open>+\<close>, any other byte
  becomes \<^verbatim>\<open>%\<close> and two upper-case hexadecimal digits; tuples are joined with \<^verbatim>\<open>&\<close>, name and
  value with \<^verbatim>\<open>=\<close>.
\<close>

definition unreserved :: "char \<Rightarrow> bool" where
  "unreserved c =
     (let n = (of_char c :: nat) in
        (48 \<le> n \<and> n \<le> 57) \<or> (65 \<le> n \<and> n \<le> 90) \<or> (97 \<le> n \<and> n \<le> 122)
        \<or> n = 42 \<or> n = 45 \<or> n = 46 \<or> n = 95)"

definition hex_digit :: "nat \<Rightarrow> char" where
  "hex_digit d = char_of (if d < 10 then 48 + d else 55 + d)"

definition percent_encode_byte :: "char \<Rightarrow> string" where
  "percent_encode_byte c =
     (if unreserved c then [c]
      else if c = CHR '' '' then ''+''
      else [CHR ''%'', hex_digit (of_char c div 16), hex_digit (of_char c mod 16)])"

definition percent_encode :: "string \<Rightarrow> string" where
  "percent_encode s = concat (map percent_encode_byte s)"

fun serialize_loop :: "string \<Rightarrow> (string \<times> string) list \<Rightarrow> string" where
  "serialize_loop out [] = out"
| "serialize_loop out ((name, val) # tuples) =
     serialize_loop
       ((if out = [] then out else out @ ''&'') @ percent_encode name @ ''='' @ percent_encode val)
       tuples"

definition URLSearchParams_toString :: "(string \<times> string) list \<Rightarrow> string" where
  "URLSearchParams_toString fd = serialize_loop [] fd"

text \<open>
  The reading direction, which the program itself never runs: the parser of the same
  standard (what \<^verbatim>\<open>new URLSearchParams(body)\<close> does at the receiving end) and \<^verbatim>\<open>getAll\<close>,
  which collects the values of a repeated name in order. Properties of the body that speak
  of its fields are stated through them.
\<close>

definition hex_value :: "char \<Rightarrow> nat option" where
  "hex_value c =
     (let n = (of_char c :: nat) in
        if 48 \<le> n \<and> n \<le> 57 then Some (n - 48)
        else if 65 \<le> n \<and> n \<le> 70 then Some (n - 55)
        else if 97 \<le> n \<and> n \<le> 102 then Some (n - 87)
        else None)"

fun percent_decode :: "string \<Rightarrow> string" where
  "percent_decode (c # h # l # rest) =
     (if c = CHR ''%'' then
        (case (hex_value h, hex_value l) of
           (Some a, Some b) \<Rightarrow> char_of (16 * a + b) # percent_decode rest
         | _ \<Rightarrow> c # percent_decode (h # l # rest))
      else c # percent_decode (h # l # rest))"
| "percent_decode (c # rest) = c # percent_decode rest"
| "percent_decode [] = []"

fun split_on :: "char \<Rightarrow> string \<Rightarrow> string list" where
  "split_on d [] = [[]]"
| "split_on d (c # cs) =
     (if c = d then [] # split_on d cs
      else (case split_on d cs of [] \<Rightarrow> [[c]] | w # ws \<Rightarrow> (c # w) # ws))"

definition plus_to_space :: "string \<Rightarrow> string" where
  "plus_to_space s = map (\<lambda>c. if c = CHR ''+'' then CHR '' '' else c) s"

definition parse_tuple :: "string \<Rightarrow> string \<times> string" where
  "parse_tuple bytes =
     (let name = takeWhile (\<lambda>c. c \<noteq> CHR ''='') bytes;
          val = (if CHR ''='' \<in> set bytes then tl (dropWhile (\<lambda>c. c \<noteq> CHR ''='') bytes) else [])
      in (percent_decode (plus_to_space name), percent_decode (plus_to_space val)))"

definition urlencoded_parse :: "string \<Rightarrow> (string \<times> string) list" where
  "urlencoded_parse input =
     map parse_tuple (filter (\<lambda>bytes. bytes \<noteq> []) (split_on CHR ''&'' input))"

definition getAll :: "string \<Rightarrow> (string \<times> string) list \<Rightarrow> string list" where
  "getAll name fd = map snd (filter (\<lambda>t. fst t = name) fd)"

subsection \<open>The request helper\<close>

definition API_BASE_URL :: string where
  "API_BASE_URL = ''https://api.twilio.com/2010-04-01''"

text \<open>\<^verbatim>\<open>value.forEach((v) => formData.append(key, String(v)))\<close>\<close>

fun forEach_append ::
  "'n platform \<Rightarrow> string \<Rightarrow> 'n jsval list \<Rightarrow> (string \<times> string) list
    \<Rightarrow> jserror + (string \<times> string) list" where
  "forEach_append P key [] fd = Inr fd"
| "forEach_append P key (v # vs) fd =
     (case ToString P v of
        Inl e \<Rightarrow> Inl e
      | Inr s \<Rightarrow> forEach_append P key vs (fd @ [(key, s)]))"

text \<open>
  The loop over \<^verbatim>\<open>Object.entries(body)\<close>, the same in both files: a \<^verbatim>\<open>null\<close> or \<^verbatim>\<open>undefined\<close>
  value is skipped, an array appends one tuple per element, any other value one tuple.
\<close>

fun formData_loop ::
  "'n platform \<Rightarrow> (string \<times> 'n jsval) list \<Rightarrow> (string \<times> string) list
    \<Rightarrow> jserror + (string \<times> string) list" where
  "formData_loop P [] fd = Inr fd"
| "formData_loop P ((key, val) # entries) fd =
     (if val = JUndefined \<or> val = JNull then formData_loop P entries fd
      else
        (case val of
           JArr vs \<Rightarrow>
             (case forEach_append P key vs fd of
                Inl e \<Rightarrow> Inl e
              | Inr fd' \<Rightarrow> formData_loop P entries fd')
         | _ \<Rightarrow>
             (case ToString P val of
                Inl e \<Rightarrow> Inl e
              | Inr s \<Rightarrow> formData_loop P entries (fd @ [(key, s)]))))"

definition formData ::
  "'n platform \<Rightarrow> (string \<times> 'n jsval) list \<Rightarrow> jserror + (string \<times> string) list" where
  "formData P body = formData_loop P body []"

text \<open>The body as sent: \<^verbatim>\<open>formData.toString()\<close>.\<close>

definition encoded_body :: "'n platform \<Rightarrow> (string \<times> 'n jsval) list \<Rightarrow> jserror + string" where
  "encoded_body P body =
     (case formData P body of Inl e \<Rightarrow> Inl e | Inr fd \<Rightarrow> Inr (URLSearchParams_toString fd))"

text \<open>\<^verbatim>\<open>response.json()\<close>: the body is read and parsed.\<close>

definition response_json :: "'n platform \<Rightarrow> 'n http_response \<Rightarrow> jserror + 'n jsval" where
  "response_json P response =
     (case resp_text response of Inl e \<Rightarrow> Inl e | Inr t \<Rightarrow> JSON_parse P t)"

text \<open>
  \<^verbatim>\<open>src/unnamed/part_000\<close>, lines 191 to 199: the message of the error thrown for a response
  that is not ok. Whatever is thrown inside the \<^verbatim>\<open>try\<close> (by the parser, by reading a property
  of \<^verbatim>\<open>null\<close>, by a conversion) leaves the raw text in place.
\<close>

definition errorMessage :: "'n platform \<Rightarrow> string \<Rightarrow> string" where
  "errorMessage P errorText =
     (case JSON_parse P errorText of
        Inl e \<Rightarrow> errorText
      | Inr errorData \<Rightarrow>
          (case get_property P errorData ''message'' of
             Inl e \<Rightarrow> errorText
           | Inr m \<Rightarrow>
               if truthy P m then
                 (case property_text P errorData ''code'' of
                    Inl e \<Rightarrow> errorText
                  | Inr code \<Rightarrow>
                      (case ToString P m of
                         Inl e \<Rightarrow> errorText
                       | Inr msg \<Rightarrow>
                           (case property_text P errorData ''more_info'' of
                              Inl e \<Rightarrow> errorText
                            | Inr more_info \<Rightarrow>
                                ''Code '' @ code @ '': '' @ msg @ '' (More info: '' @ more_info @ '')'')))
               else errorText))"

text \<open>
  \<^verbatim>\<open>twilioRequest\<close> of \<^verbatim>\<open>src/unnamed/part_000\<close>. The result is the value returned or the
  error thrown, together with the requests handed to \<^verbatim>\<open>fetch\<close>. The outer \<^verbatim>\<open>try\<close> logs and
  throws again what it caught, so it changes nothing.
\<close>

definition twilioRequest ::
  "'n platform \<Rightarrow> TwilioConfig option \<Rightarrow> string \<Rightarrow> http_method \<Rightarrow> (string \<times> 'n jsval) list
    \<Rightarrow> (jserror + 'n jsval) \<times> http_request list" where
  "twilioRequest P config endpoint method body =
     (let url = API_BASE_URL @ endpoint in
      case config of
        None \<Rightarrow> (Inl (JsError ''Server configuration for Twilio is missing.''), [])
      | Some c \<Rightarrow>
          if \<not> field_truthy (apiKey c) \<or> \<not> field_truthy (apiSecret c)
          then (Inl (JsError ''Server configuration for Twilio is missing.''), [])
          else
            (let authToken = base64 (field_text (apiKey c) @ '':'' @ field_text (apiSecret c)) in
             case encoded_body P body of
               Inl e \<Rightarrow> (Inl e, [])
             | Inr requestBody \<Rightarrow>
                 (let request =
                    \<lparr>req_url = url, req_method = method,
                     req_headers =
                       [(''Authorization'', ''Basic '' @ authToken),
                        (''Content-Type'', ''application/x-www-form-urlencoded''),
                        (''Accept'', ''application/json'')],
                     req_body = (if method = POST then Some requestBody else None)\<rparr>
                  in
                  case fetch P request of
                    Inl e \<Rightarrow> (Inl e, [request])
                  | Inr response \<Rightarrow>
                      if \<not> resp_ok response then
                        (case resp_text response of
                           Inl e \<Rightarrow> (Inl e, [request])
                         | Inr errorText \<Rightarrow> (Inl (JsError (errorMessage P errorText)), [request]))
                      else (response_json P response, [request]))))"

text \<open>
  \<^verbatim>\<open>twilioRequest\<close> of \<^verbatim>\<open>src/server.ts\<close>: no guard on the configuration, no \<^verbatim>\<open>Accept\<close>
  header, and for a response that is not ok the error is the descriptor's \<^verbatim>\<open>message\<close> alone,
  or the status line when the body gives none (\<^verbatim>\<open>response.json().catch(() => ({}))\<close>).
\<close>

definition twilioRequest_server_ts ::
  "'n platform \<Rightarrow> TwilioConfig option \<Rightarrow> string \<Rightarrow> http_method \<Rightarrow> (string \<times> 'n jsval) list
    \<Rightarrow> (jserror + 'n jsval) \<times> http_request list" where
  "twilioRequest_server_ts P config endpoint method body =
     (let url = API_BASE_URL @ endpoint in
      case config of
        None \<Rightarrow> (Inl (JsError (TypeError_property P ''undefined'' ''apiKey'')), [])
      | Some c \<Rightarrow>
          (let authToken = base64 (field_text (apiKey c) @ '':'' @ field_text (apiSecret c)) in
           case formData P body of
             Inl e \<Rightarrow> (Inl e, [])
           | Inr fd \<Rightarrow>
               (let request =
                  \<lparr>req_url = url, req_method = method,
                   req_headers =
                     [(''Authorization'', ''Basic '' @ authToken),
                      (''Content-Type'', ''application/x-www-form-urlencoded'')],
                   req_body = (if method = POST then Some (URLSearchParams_toString fd) else None)\<rparr>
                in
                case fetch P request of
                  Inl e \<Rightarrow> (Inl e, [request])
                | Inr response \<Rightarrow>
                    if \<not> resp_ok response then
                      (let errorData =
                         (case response_json P response of Inl e \<Rightarrow> JObj [] | Inr v \<Rightarrow> v)
                       in
                       case get_property P errorData ''message'' of
                         Inl e \<Rightarrow> (Inl e, [request])
                       | Inr m \<Rightarrow>
                           if truthy P m then
                             (case ToString P m of
                                Inl e \<Rightarrow> (Inl e, [request])
                              | Inr msg \<Rightarrow> (Inl (JsError msg), [request]))
                           else
                             (Inl (JsError (''Twilio API error: ''
                                 @ Number_toString P (resp_status response) @ '' ''
                                 @ resp_statusText response)), [request]))
                    else (response_json P response, [request]))))"

subsection \<open>The tool handler\<close>

definition newline :: string where
  "newline = [CHR 0x0A]"

text \<open>
  The lines of the answer for a response (the same in both files): five lines, and a sixth
  when \<^verbatim>\<open>response.error_message\<close> is truthy.
\<close>

definition responseText :: "'n platform \<Rightarrow> 'n jsval \<Rightarrow> jserror + string list" where
  "responseText P response =
     (case property_text P response ''sid'' of
        Inl e \<Rightarrow> Inl e
      | Inr sid \<Rightarrow>
     (case property_text P response ''status'' of
        Inl e \<Rightarrow> Inl e
      | Inr status \<Rightarrow>
     (case property_text P response ''to'' of
        Inl e \<Rightarrow> Inl e
      | Inr to \<Rightarrow>
     (case property_text P response ''from'' of
        Inl e \<Rightarrow> Inl e
      | Inr from \<Rightarrow>
          (let lines =
             [''Message sent successfully!'', ''SID: '' @ sid, ''Status: '' @ status,
              ''To: '' @ to, ''From: '' @ from]
           in
           case get_property P response ''error_message'' of
             Inl e \<Rightarrow> Inl e
           | Inr error_message \<Rightarrow>
               if truthy P error_message then
                 (case ToString P error_message of
                    Inl e \<Rightarrow> Inl e
                  | Inr em \<Rightarrow> Inr (lines @ [''Error: '' @ em]))
               else Inr lines)))))"

definition success_result :: "string list \<Rightarrow> tool_result" where
  "success_result lines =
     \<lparr>content = [TextBlock (join newline lines)], isError = False\<rparr>"

text \<open>The \<^verbatim>\<open>catch\<close> branch of the handler.\<close>

definition error_result :: "jserror \<Rightarrow> tool_result" where
  "error_result error =
     \<lparr>content = [TextBlock (''Error sending message: '' @ message error)], isError = True\<rparr>"

definition messages_endpoint :: "string \<Rightarrow> string" where
  "messages_endpoint sid = ''/Accounts/'' @ sid @ ''/Messages.json''"

text \<open>Lines 242 to 260 of \<^verbatim>\<open>src/unnamed/part_000\<close>, 207 to 225 of \<^verbatim>\<open>src/server.ts\<close>.\<close>

definition format_response :: "'n platform \<Rightarrow> 'n jsval \<Rightarrow> jserror + tool_result" where
  "format_response P response =
     (case responseText P response of
        Inl error \<Rightarrow> Inl error
      | Inr lines \<Rightarrow> Inr (success_result lines))"

text \<open>
  The \<^verbatim>\<open>try\<close> block of the handler of \<^verbatim>\<open>src/unnamed/part_000\<close>: the result returned or the
  error thrown, and the requests handed to \<^verbatim>\<open>fetch\<close> on the way.
\<close>

definition send_message_try ::
  "'n platform \<Rightarrow> TwilioConfig option \<Rightarrow> (string \<times> 'n jsval) list
    \<Rightarrow> (jserror + tool_result) \<times> http_request list" where
  "send_message_try P config params =
     (case config of
        None \<Rightarrow> (Inl (JsError ''Server configuration for Twilio is missing.''), [])
      | Some c \<Rightarrow>
          if \<not> field_truthy (accountSid c)
          then (Inl (JsError ''Server configuration for Twilio is missing.''), [])
          else
            (let endpoint = messages_endpoint (field_text (accountSid c)) in
             case twilioRequest P config endpoint POST params of
               (Inl error, requests) \<Rightarrow> (Inl error, requests)
             | (Inr response, requests) \<Rightarrow> (format_response P response, requests)))"

text \<open>The handler: what the \<^verbatim>\<open>try\<close> block returns, or the \<^verbatim>\<open>catch\<close> branch.\<close>

definition send_message ::
  "'n platform \<Rightarrow> TwilioConfig option \<Rightarrow> (string \<times> 'n jsval) list
    \<Rightarrow> tool_result \<times> http_request list" where
  "send_message P config params =
     (case send_message_try P config params of
        (Inl error, requests) \<Rightarrow> (error_result error, requests)
      | (Inr result, requests) \<Rightarrow> (result, requests))"

text \<open>
  The handler of \<^verbatim>\<open>src/server.ts\<close>: no guard; reading \<^verbatim>\<open>config.accountSid\<close> of a missing
  configuration throws inside the \<^verbatim>\<open>try\<close>.
\<close>

definition send_message_try_server_ts ::
  "'n platform \<Rightarrow> TwilioConfig option \<Rightarrow> (string \<times> 'n jsval) list
    \<Rightarrow> (jserror + tool_result) \<times> http_request list" where
  "send_message_try_server_ts P config params =
     (case config of
        None \<Rightarrow> (Inl (JsError (TypeError_property P ''undefined'' ''accountSid'')), [])
      | Some c \<Rightarrow>
          (let endpoint = messages_endpoint (field_text (accountSid c)) in
           case twilioRequest_server_ts P config endpoint POST params of
             (Inl error, requests) \<Rightarrow> (Inl error, requests)
           | (Inr response, requests) \<Rightarrow> (format_response P response, requests)))"

definition send_message_server_ts ::
  "'n platform \<Rightarrow> TwilioConfig option \<Rightarrow> (string \<times> 'n jsval) list
    \<Rightarrow> tool_result \<times> http_request list" where
  "send_message_server_ts P config params =
     (case send_message_try_server_ts P config params of
        (Inl error, requests) \<Rightarrow> (error_result error, requests)
      | (Inr result, requests) \<Rightarrow> (result, requests))"

text \<open>The text of a result, and the lines of a text.\<close>

definition text_of :: "tool_result \<Rightarrow> string" where
  "text_of r = concat (map (\<lambda>b. case b of TextBlock t \<Rightarrow> t) (content r))"

definition lines_of :: "string \<Rightarrow> string list" where
  "lines_of t = split_on (CHR 0x0A) t"

subsection \<open>Auxiliary notions for the statements\<close>

text \<open>
  A value without objects at any depth: strings, numbers, booleans, \<^verbatim>\<open>null\<close>,
  \<^verbatim>\<open>undefined\<close> and arrays of such. The tool's schema admits only strings, a number and an
  array of strings. Converting such a value never throws.
\<close>

fun plain :: "'n jsval \<Rightarrow> bool" where
  "plain (JArr xs) = list_all plain xs"
| "plain (JObj kvs) = False"
| "plain v = True"

text \<open>One tuple as the serialiser writes it.\<close>

definition tuple_string :: "string \<times> string \<Rightarrow> string" where
  "tuple_string t = percent_encode (fst t) @ ''='' @ percent_encode (snd t)"

text \<open>
  A simulated platform for concrete runs: numbers are integers printed in decimal, the
  parser knows the texts of a table, and every request gets the same answer.
\<close>

function decimal :: "nat \<Rightarrow> string" where
  "decimal n =
     (if n < 10 then [''0123456789'' ! n] else decimal (n div 10) @ [''0123456789'' ! (n mod 10)])"
  by pat_completeness auto
termination
  by (relation "measure id") auto

declare decimal.simps [simp del]

definition show_int :: "int \<Rightarrow> string" where
  "show_int i = (if i < 0 then ''-'' @ decimal (nat (- i)) else decimal (nat i))"

definition simulated ::
  "(string \<times> int jsval) list \<Rightarrow> jserror + int http_response \<Rightarrow> int platform" where
  "simulated parses answer =
     \<lparr>Number_toString = show_int,
      Number_truthy = (\<lambda>n. n \<noteq> 0),
      TypeError_primitive = ''Cannot convert object to primitive value'',
      TypeError_property =
        (\<lambda>v k. ''Cannot read properties of '' @ v @ '' (reading '' @ [CHR 0x27] @ k @ [CHR 0x27]
           @ '')''),
      JSON_parse =
        (\<lambda>t. case map_of parses t of
               None \<Rightarrow> Inl (JsError ''Unexpected token'')
             | Some v \<Rightarrow> Inr v),
      fetch = (\<lambda>request. answer)\<rparr>"

text \<open>An answer of the simulated network: it is ok exactly when the status is 2xx.\<close>

definition http_answer :: "int \<Rightarrow> string \<Rightarrow> string \<Rightarrow> jserror + int http_response" where
  "http_answer status statusText body =
     Inr \<lparr>resp_ok = (200 \<le> status \<and> status \<le> 299), resp_status = status,
          resp_statusText = statusText, resp_text = Inr body\<rparr>"

text \<open>
  The request each version of \<^verbatim>\<open>twilioRequest\<close> hands to \<^verbatim>\<open>fetch\<close>, for a configuration, an
  endpoint, a method and the serialised body (lemmas \<open>twilioRequest_sends\<close> and
  \<open>twilioRequest_server_ts_sends\<close>).
\<close>

definition sent_request :: "TwilioConfig \<Rightarrow> string \<Rightarrow> http_method \<Rightarrow> string \<Rightarrow> http_request" where
  "sent_request c endpoint method s =
     \<lparr>req_url = API_BASE_URL @ endpoint, req_method = method,
      req_headers =
        [(''Authorization'',
          ''Basic '' @ base64 (field_text (apiKey c) @ '':'' @ field_text (apiSecret c))),
         (''Content-Type'', ''application/x-www-form-urlencoded''),
         (''Accept'', ''application/json'')],
      req_body = (if method = POST then Some s else None)\<rparr>"

definition sent_request_server_ts ::
  "TwilioConfig \<Rightarrow> string \<Rightarrow> http_method \<Rightarrow> string \<Rightarrow> http_request" where
  "sent_request_server_ts c endpoint method s =
     \<lparr>req_url = API_BASE_URL @ endpoint, req_method = method,
      req_headers =
        [(''Authorization'',
          ''Basic '' @ base64 (field_text (apiKey c) @ '':'' @ field_text (apiSecret c))),
         (''Content-Type'', ''application/x-www-form-urlencoded'')],
      req_body = (if method = POST then Some s else None)\<rparr>"

text \<open>The inputs of the concrete runs: a configuration, parameters, and response bodies.\<close>

definition example_config :: TwilioConfig where
  "example_config = \<lparr>accountSid = Some ''AC1'', apiKey = Some ''SK1'', apiSecret = Some ''secret''\<rparr>"

definition example_params :: "(string \<times> int jsval) list" where
  "example_params =
     [(''To'', JStr ''+15551234567''), (''From'', JStr ''+15559876543''), (''Body'', JStr ''Hello'')]"

definition queued_text :: string where
  \<open>queued_text = ''{"sid":"SM1","status":"queued","to":"+15551234567","from":"+15559876543"}''\<close>

definition queued_message :: "int jsval" where
  "queued_message =
     JObj [(''sid'', JStr ''SM1''), (''status'', JStr ''queued''), (''to'', JStr ''+15551234567''),
           (''from'', JStr ''+15559876543'')]"

definition rejected_text :: string where
  \<open>rejected_text = ''{"sid":"SM1","status":"queued","to":"+15551234567","from":"+15559876543","error_message":"Carrier rejected"}''\<close>

definition rejected_message :: "int jsval" where
  "rejected_message =
     JObj [(''sid'', JStr ''SM1''), (''status'', JStr ''queued''), (''to'', JStr ''+15551234567''),
           (''from'', JStr ''+15559876543''), (''error_message'', JStr ''Carrier rejected'')]"

definition invalid_to_text :: string where
  \<open>invalid_to_text = ''{"code":21211,"message":"Invalid 'To' Phone Number","more_info":"https://...","status":400}''\<close>

definition invalid_to_descriptor :: "int jsval" where
  "invalid_to_descriptor =
     JObj [(''code'', JNum 21211), (''message'', JStr ''Invalid 'To' Phone Number''),
           (''more_info'', JStr ''https://...''), (''status'', JNum 400)]"

definition empty_message_text :: string where
  \<open>empty_message_text = ''{"code":20500,"message":"","more_info":"https://...","status":500}''\<close>

definition empty_message_descriptor :: "int jsval" where
  "empty_message_descriptor =
     JObj [(''code'', JNum 20500), (''message'', JStr []),
           (''more_info'', JStr ''https://...''), (''status'', JNum 500)]"

text \<open>A descriptor whose \<^verbatim>\<open>code\<close> is an object that cannot be converted to a string.\<close>

definition unconvertible_code_text :: string where
  \<open>unconvertible_code_text = ''{"code":{"toString":null},"message":"Invalid 'To' Phone Number","more_info":"https://...","status":400}''\<close>

definition unconvertible_code_descriptor :: "int jsval" where
  "unconvertible_code_descriptor =
     JObj [(''code'', JObj [(''toString'', JNull)]), (''message'', JStr ''Invalid 'To' Phone Number''),
           (''more_info'', JStr ''https://...''), (''status'', JNum 400)]"

section \<open>Properties\<close>

subsection \<open>The serialiser and the parser of the form body\<close>

lemma of_char_hex_digit:
  "d < 16 \<Longrightarrow> (of_char (hex_digit d) :: nat) = (if d < 10 then 48 + d else 55 + d)"
  by (simp add: hex_digit_def)

lemma hex_value_hex_digit: "d < 16 \<Longrightarrow> hex_value (hex_digit d) = Some d"
  by (simp add: hex_value_def of_char_hex_digit Let_def)

lemma hex_digit_plain:
  assumes "d < 16"
  shows "hex_digit d \<noteq> CHR ''&''" and "hex_digit d \<noteq> CHR ''=''" and "hex_digit d \<noteq> CHR ''+''"
proof -
  have n: "(of_char (hex_digit d) :: nat) \<ge> 48"
    using assms by (simp add: of_char_hex_digit)
  show "hex_digit d \<noteq> CHR ''&''"
  proof
    assume "hex_digit d = CHR ''&''"
    then have "(of_char (hex_digit d) :: nat) = of_char CHR ''&''" by simp
    with n show False by simp
  qed
  show "hex_digit d \<noteq> CHR ''=''"
  proof
    assume "hex_digit d = CHR ''=''"
    then have "(of_char (hex_digit d) :: nat) = of_char CHR ''=''" by simp
    with assms show False by (simp add: of_char_hex_digit split: if_splits)
  qed
  show "hex_digit d \<noteq> CHR ''+''"
  proof
    assume "hex_digit d = CHR ''+''"
    then have "(of_char (hex_digit d) :: nat) = of_char CHR ''+''" by simp
    with n show False by simp
  qed
qed

lemma unreserved_plain:
  assumes "unreserved c"
  shows "c \<noteq> CHR ''%''" and "c \<noteq> CHR ''&''" and "c \<noteq> CHR ''=''" and "c \<noteq> CHR ''+''"
  using assms by (auto simp: unreserved_def Let_def)

lemma of_char_div_mod_lt: "(of_char c :: nat) div 16 < 16" "(of_char c :: nat) mod 16 < 16"
proof -
  have "(of_char c :: nat) < 256" by (cases c) simp
  then show "(of_char c :: nat) div 16 < 16" by arith
  show "(of_char c :: nat) mod 16 < 16" by simp
qed

lemma percent_encode_byte_plain:
  "x \<in> set (percent_encode_byte c) \<Longrightarrow> x \<noteq> CHR ''&'' \<and> x \<noteq> CHR ''=''"
  by (auto simp: percent_encode_byte_def unreserved_plain hex_digit_plain of_char_div_mod_lt
      split: if_splits)

lemma percent_encode_plain:
  "x \<in> set (percent_encode s) \<Longrightarrow> x \<noteq> CHR ''&'' \<and> x \<noteq> CHR ''=''"
  unfolding percent_encode_def using percent_encode_byte_plain by auto

lemma percent_decode_other:
  "c \<noteq> CHR ''%'' \<Longrightarrow> percent_decode (c # rest) = c # percent_decode rest"
  by (cases rest rule: percent_decode.cases) (auto split: list.splits)

lemma percent_decode_triple:
  "percent_decode (CHR ''%'' # hex_digit (of_char c div 16) # hex_digit (of_char c mod 16) # rest)
     = c # percent_decode rest"
proof -
  have "char_of (16 * ((of_char c :: nat) div 16) + of_char c mod 16) = c"
    by simp
  then show ?thesis
    by (simp add: hex_value_hex_digit of_char_div_mod_lt)
qed

lemma decode_encode_byte:
  "percent_decode (plus_to_space (percent_encode_byte c @ rest))
     = c # percent_decode (plus_to_space rest)"
proof (cases "unreserved c")
  case True
  then show ?thesis
    by (simp add: percent_encode_byte_def plus_to_space_def unreserved_plain percent_decode_other)
next
  case False
  show ?thesis
  proof (cases "c = CHR '' ''")
    case True
    with False show ?thesis
      by (simp add: percent_encode_byte_def plus_to_space_def percent_decode_other)
  next
    case sp: False
    with False have "plus_to_space (percent_encode_byte c @ rest)
        = CHR ''%'' # hex_digit (of_char c div 16) # hex_digit (of_char c mod 16) # plus_to_space rest"
      by (simp add: percent_encode_byte_def plus_to_space_def hex_digit_plain of_char_div_mod_lt)
    then show ?thesis
      by (simp only: percent_decode_triple)
  qed
qed

lemma decode_encode_append:
  "percent_decode (plus_to_space (percent_encode s @ rest)) = s @ percent_decode (plus_to_space rest)"
  by (induction s) (simp_all add: percent_encode_def decode_encode_byte)

lemma decode_encode: "percent_decode (plus_to_space (percent_encode s)) = s"
  using decode_encode_append [of s "[]"] by (simp add: plus_to_space_def)

lemma tuple_string_plain: "CHR ''&'' \<notin> set (tuple_string t)"
  using percent_encode_plain by (fastforce simp: tuple_string_def)

lemma tuple_string_not_Nil: "tuple_string t \<noteq> []"
  by (simp add: tuple_string_def)

lemma parse_tuple_tuple_string: "parse_tuple (tuple_string t) = t"
proof -
  have n: "\<And>x. x \<in> set (percent_encode (fst t)) \<Longrightarrow> x \<noteq> CHR ''=''"
    using percent_encode_plain by blast
  have tw: "takeWhile (\<lambda>c. c \<noteq> CHR ''='') (tuple_string t) = percent_encode (fst t)"
    by (simp add: tuple_string_def takeWhile_append2 [OF n])
  have dw: "dropWhile (\<lambda>c. c \<noteq> CHR ''='') (tuple_string t) = CHR ''='' # percent_encode (snd t)"
    by (simp add: tuple_string_def dropWhile_append2 [OF n])
  have "CHR ''='' \<in> set (tuple_string t)"
    by (simp add: tuple_string_def)
  then show ?thesis
    by (simp add: parse_tuple_def tw dw decode_encode)
qed

lemma split_on_not_Nil: "split_on d s \<noteq> []"
  by (induction s) (auto split: list.splits)

lemma split_on_plain: "d \<notin> set a \<Longrightarrow> split_on d a = [a]"
  by (induction a) (auto split: list.splits)

lemma split_on_append: "split_on d (a @ d # r) = split_on d a @ split_on d r"
  by (induction a) (auto split: list.splits simp: split_on_not_Nil)

lemma serialize_loop_Cons:
  "serialize_loop out (t # fd)
     = serialize_loop ((if out = [] then out else out @ ''&'') @ tuple_string t) fd"
  by (cases t) (simp add: tuple_string_def)

lemma split_serialize_loop:
  "out \<noteq> [] \<Longrightarrow>
   split_on CHR ''&'' (serialize_loop out fd) = split_on CHR ''&'' out @ map tuple_string fd"
proof (induction fd arbitrary: out)
  case Nil
  show ?case by simp
next
  case (Cons t fd)
  have "split_on CHR ''&'' (serialize_loop out (t # fd))
      = split_on CHR ''&'' (out @ CHR ''&'' # tuple_string t) @ map tuple_string fd"
    using Cons.prems Cons.IH [of "out @ CHR ''&'' # tuple_string t"]
    by (simp add: serialize_loop_Cons)
  then show ?case
    by (simp add: split_on_append split_on_plain tuple_string_plain)
qed

lemma split_toString:
  "filter (\<lambda>bytes. bytes \<noteq> []) (split_on CHR ''&'' (URLSearchParams_toString fd))
     = map tuple_string fd"
proof (cases fd)
  case Nil
  then show ?thesis by (simp add: URLSearchParams_toString_def)
next
  case (Cons t ts)
  have "split_on CHR ''&'' (URLSearchParams_toString fd) = map tuple_string fd"
    using split_serialize_loop [of "tuple_string t" ts]
    by (simp add: Cons URLSearchParams_toString_def serialize_loop_Cons tuple_string_not_Nil
        split_on_plain tuple_string_plain)
  moreover have "filter (\<lambda>bytes. bytes \<noteq> []) (map tuple_string fd) = map tuple_string fd"
    by (induction fd) (simp_all add: tuple_string_not_Nil)
  ultimately show ?thesis by simp
qed

text \<open>Parsing what the serialiser wrote gives the tuples back, in order.\<close>

lemma parse_toString: "urlencoded_parse (URLSearchParams_toString fd) = fd"
  by (simp add: urlencoded_parse_def split_toString parse_tuple_tuple_string comp_def)

subsection \<open>The loop that fills the form\<close>

lemma sequence_all_Inr:
  "(\<And>r. r \<in> set rs \<Longrightarrow> \<exists>x. r = Inr x) \<Longrightarrow> \<exists>xs. sequence rs = Inr xs"
proof (induction rs)
  case Nil
  show ?case by simp
next
  case (Cons r rs)
  then obtain x where "r = Inr x" by auto
  moreover from Cons obtain xs where "sequence rs = Inr xs" by auto
  ultimately show ?case by simp
qed

lemma ToString_plain: "plain v \<Longrightarrow> \<exists>s. ToString P v = Inr s"
proof (induction v)
  case (JArr xs)
  have "\<exists>ss. sequence (map (\<lambda>x. if x = JUndefined \<or> x = JNull then Inr [] else ToString P x) xs) = Inr ss"
  proof (rule sequence_all_Inr)
    fix r assume "r \<in> set (map (\<lambda>x. if x = JUndefined \<or> x = JNull then Inr [] else ToString P x) xs)"
    then obtain x where x: "x \<in> set xs"
      and r: "r = (if x = JUndefined \<or> x = JNull then Inr [] else ToString P x)"
      by auto
    from JArr.prems x have "plain x" by (simp add: list_all_iff)
    with JArr.IH x r show "\<exists>s. r = Inr s" by auto
  qed
  then show ?case by auto
qed simp_all

lemma forEach_append_plain:
  "list_all plain vs \<Longrightarrow> \<exists>fd'. forEach_append P key vs fd = Inr fd'"
proof (induction vs arbitrary: fd)
  case Nil
  show ?case by simp
next
  case (Cons v vs)
  then obtain s where "ToString P v = Inr s" using ToString_plain [of v P] by auto
  with Cons show ?case by simp
qed

lemma formData_loop_plain:
  "list_all (\<lambda>e. plain (snd e)) entries \<Longrightarrow> \<exists>fd'. formData_loop P entries fd = Inr fd'"
proof (induction P entries fd rule: formData_loop.induct)
  case (1 P fd)
  show ?case by simp
next
  case (2 P key val entries fd)
  show ?case
  proof (cases "val = JUndefined \<or> val = JNull")
    case True
    with 2 show ?thesis by auto
  next
    case False
    show ?thesis
    proof (cases val)
      case (JArr vs)
      with "2.prems" have "list_all plain vs" by simp
      then obtain fd' where fd': "forEach_append P key vs fd = Inr fd'"
        using forEach_append_plain by blast
      with 2 False JArr show ?thesis by auto
    next
      case (JObj kvs)
      with "2.prems" show ?thesis by simp
    qed (use 2 False in auto)
  qed
qed

text \<open>A body without objects is always serialised: nothing throws on the way.\<close>

lemma encoded_body_plain:
  "list_all (\<lambda>e. plain (snd e)) body \<Longrightarrow> \<exists>s. encoded_body P body = Inr s"
  using formData_loop_plain [of body P "[]"] by (auto simp: encoded_body_def formData_def)

lemma forEach_append_getAll:
  "forEach_append P key vs fd = Inr fd' \<Longrightarrow>
   \<exists>ss. map (ToString P) vs = map Inr ss \<and> fd' = fd @ map (Pair key) ss"
proof (induction vs arbitrary: fd)
  case Nil
  then show ?case by simp
next
  case (Cons v vs)
  from Cons.prems obtain s where s: "ToString P v = Inr s"
    and r: "forEach_append P key vs (fd @ [(key, s)]) = Inr fd'"
    by (auto split: sum.splits)
  from Cons.IH [OF r] obtain ss where "map (ToString P) vs = map Inr ss"
    and "fd' = (fd @ [(key, s)]) @ map (Pair key) ss" by blast
  with s have "map (ToString P) (v # vs) = map Inr (s # ss) \<and> fd' = fd @ map (Pair key) (s # ss)"
    by simp
  then show ?case by blast
qed

lemma getAll_append: "getAll k (fd @ fd') = getAll k fd @ getAll k fd'"
  by (simp add: getAll_def)

lemma getAll_Pair: "getAll k (map (Pair key) ss) = (if key = k then ss else [])"
  by (simp add: getAll_def filter_map comp_def)

lemma formData_loop_step:
  assumes "formData_loop P ((key, val) # entries) fd = Inr fd'"
  shows "\<exists>ss. formData_loop P entries (fd @ map (Pair key) ss) = Inr fd' \<and>
           (if val = JUndefined \<or> val = JNull then ss = []
            else case val of JArr vs \<Rightarrow> map (ToString P) vs = map Inr ss
                 | _ \<Rightarrow> ToString P val = Inr (hd ss) \<and> length ss = 1)"
proof (cases "val = JUndefined \<or> val = JNull")
  case True
  with assms have "formData_loop P entries (fd @ map (Pair key) []) = Inr fd'" by auto
  with True show ?thesis by (intro exI [of _ "[]"]) simp
next
  case False
  show ?thesis
  proof (cases "\<exists>vs. val = JArr vs")
    case True
    then obtain vs where vs: "val = JArr vs" by blast
    with assms obtain fd1 where a: "forEach_append P key vs fd = Inr fd1"
      and r: "formData_loop P entries fd1 = Inr fd'"
      by (auto split: sum.splits)
    from forEach_append_getAll [OF a] obtain ss where
      "map (ToString P) vs = map Inr ss" "fd1 = fd @ map (Pair key) ss" by blast
    with r vs show ?thesis by (intro exI [of _ ss]) simp
  next
    case na: False
    with False assms obtain s where s: "ToString P val = Inr s"
      and r: "formData_loop P entries (fd @ [(key, s)]) = Inr fd'"
      by (cases val) (auto split: sum.splits)
    with False na show ?thesis
      by (intro exI [of _ "[s]"]) (cases val; simp)
  qed
qed

lemma formData_loop_other:
  "formData_loop P entries fd = Inr fd' \<Longrightarrow> k \<notin> fst ` set entries \<Longrightarrow>
   getAll k fd' = getAll k fd"
proof (induction entries arbitrary: fd)
  case Nil
  then show ?case by simp
next
  case (Cons e entries)
  obtain key val where e: "e = (key, val)" by (cases e)
  from Cons.prems(1) obtain ss where
    r: "formData_loop P entries (fd @ map (Pair key) ss) = Inr fd'"
    using formData_loop_step [of P key val entries fd fd'] unfolding e by blast
  from Cons.prems(2) e have "key \<noteq> k" "k \<notin> fst ` set entries" by auto
  with Cons.IH [OF r] show ?case
    by (simp add: getAll_append getAll_Pair)
qed

text \<open>
  What one field of the body contributes to the form: the values under its name are those
  already there, followed by nothing for \<^verbatim>\<open>null\<close> and \<^verbatim>\<open>undefined\<close>, by the strings of the
  elements for an array, and by one string otherwise.
\<close>

lemma formData_loop_field:
  assumes "formData_loop P entries fd = Inr fd'"
    and "distinct (map fst entries)"
    and "(k, v) \<in> set entries"
  shows "\<exists>ss. getAll k fd' = getAll k fd @ ss \<and>
           (if v = JUndefined \<or> v = JNull then ss = []
            else case v of JArr vs \<Rightarrow> map (ToString P) vs = map Inr ss
                 | _ \<Rightarrow> ToString P v = Inr (hd ss) \<and> length ss = 1)"
  using assms
proof (induction entries arbitrary: fd)
  case Nil
  then show ?case by simp
next
  case (Cons e entries)
  obtain key val where e: "e = (key, val)" by (cases e)
  from Cons.prems(1) obtain ss where
    r: "formData_loop P entries (fd @ map (Pair key) ss) = Inr fd'"
    and ss: "if val = JUndefined \<or> val = JNull then ss = []
            else case val of JArr vs \<Rightarrow> map (ToString P) vs = map Inr ss
                 | _ \<Rightarrow> ToString P val = Inr (hd ss) \<and> length ss = 1"
    using formData_loop_step [of P key val entries fd fd'] unfolding e by blast
  show ?case
  proof (cases "key = k")
    case True
    with Cons.prems(2,3) e have v: "val = v" and "k \<notin> fst ` set entries"
      by (auto simp: image_iff)
    with r have "getAll k fd' = getAll k (fd @ map (Pair key) ss)"
      using formData_loop_other by blast
    with True have "getAll k fd' = getAll k fd @ ss"
      by (simp add: getAll_append getAll_Pair)
    with ss v show ?thesis by blast
  next
    case False
    with Cons.prems(2,3) e have "distinct (map fst entries)" "(k, v) \<in> set entries"
      by auto
    from Cons.IH [OF r this] False show ?thesis
      by (simp add: getAll_append getAll_Pair)
  qed
qed

text \<open>The same for the body as sent, read back with the parser.\<close>

lemma encoded_body_field:
  assumes "encoded_body P body = Inr s"
    and "distinct (map fst body)"
    and "(k, v) \<in> set body"
  shows "\<exists>ss. getAll k (urlencoded_parse s) = ss \<and>
           (if v = JUndefined \<or> v = JNull then ss = []
            else case v of JArr vs \<Rightarrow> map (ToString P) vs = map Inr ss
                 | _ \<Rightarrow> ToString P v = Inr (hd ss) \<and> length ss = 1)"
proof -
  from assms(1) obtain fd where fd: "formData_loop P body [] = Inr fd"
    and s: "s = URLSearchParams_toString fd"
    by (auto simp: encoded_body_def formData_def split: sum.splits)
  from formData_loop_field [OF fd assms(2,3)] show ?thesis
    by (simp add: s parse_toString getAll_def)
qed

subsection \<open>Claims about the form body\<close>

text \<open>
  C2. A list-valued field with N elements gives exactly N fields of that name in the body
  that is sent, one per element and in the order of the elements, each holding the string
  of its element. The keys of the mapping are those of one object, hence distinct. The body
  exists unless a conversion throws, which it never does for a mapping without objects
  (lemma \<open>encoded_body_plain\<close>).
\<close>

theorem list_field_repeats_key:
  assumes "distinct (map fst body)"
    and "(key, JArr vs) \<in> set body"
    and "encoded_body P body = Inr s"
  shows "length (getAll key (urlencoded_parse s)) = length vs
         \<and> map Inr (getAll key (urlencoded_parse s)) = map (ToString P) vs"
proof -
  from encoded_body_field [OF assms(3,1,2)]
  have m: "map (ToString P) vs = map Inr (getAll key (urlencoded_parse s))"
    by simp
  from map_eq_imp_length_eq [OF m] m show ?thesis by simp
qed

theorem list_field_repeats_key_witness:
  "encoded_body (simulated [] (Inl (JsError ''offline'')))
     [(''To'', JStr ''+15551234567''),
      (''MediaUrl'', JArr [JStr ''https://a.example/1.png'', JStr ''https://a.example/2 b.png'']),
      (''ValidityPeriod'', JNum 3600)]
     = Inr ''To=%2B15551234567&MediaUrl=https%3A%2F%2Fa.example%2F1.png&MediaUrl=https%3A%2F%2Fa.example%2F2+b.png&ValidityPeriod=3600''
   \<and> length (getAll ''MediaUrl'' (urlencoded_parse
        ''To=%2B15551234567&MediaUrl=https%3A%2F%2Fa.example%2F1.png&MediaUrl=https%3A%2F%2Fa.example%2F2+b.png&ValidityPeriod=3600''))
       = 2"
proof -
  let ?body = "[(''To'', JStr ''+15551234567''),
      (''MediaUrl'', JArr [JStr ''https://a.example/1.png'', JStr ''https://a.example/2 b.png'']),
      (''ValidityPeriod'', JNum (3600 :: int))]"
  have e: "encoded_body (simulated [] (Inl (JsError ''offline''))) ?body
     = Inr ''To=%2B15551234567&MediaUrl=https%3A%2F%2Fa.example%2F1.png&MediaUrl=https%3A%2F%2Fa.example%2F2+b.png&ValidityPeriod=3600''"
    by code_simp
  have d: "distinct (map fst ?body)" by simp
  have m: "(''MediaUrl'', JArr [JStr ''https://a.example/1.png'', JStr ''https://a.example/2 b.png''])
      \<in> set ?body" by simp
  from list_field_repeats_key [OF d m e] e show ?thesis by simp
qed

text \<open>
  C3. A key whose value is \<^verbatim>\<open>null\<close> or \<^verbatim>\<open>undefined\<close> names no field of the body that is
  sent.
\<close>

theorem null_field_omitted:
  assumes "distinct (map fst body)"
    and "(key, v) \<in> set body"
    and "v = JNull \<or> v = JUndefined"
    and "encoded_body P body = Inr s"
  shows "key \<notin> fst ` set (urlencoded_parse s)"
proof -
  from encoded_body_field [OF assms(4,1,2)] assms(3)
  have "getAll key (urlencoded_parse s) = []" by auto
  then show ?thesis
    by (auto simp: getAll_def filter_empty_conv)
qed

theorem null_field_omitted_witness:
  "encoded_body (simulated [] (Inl (JsError ''offline'')))
     [(''To'', JStr ''+15551234567''), (''Body'', JNull), (''From'', JStr ''+15559876543'')]
     = Inr ''To=%2B15551234567&From=%2B15559876543''
   \<and> ''Body'' \<notin> fst ` set (urlencoded_parse ''To=%2B15551234567&From=%2B15559876543'')"
proof -
  let ?body = "[(''To'', JStr ''+15551234567''), (''Body'', JNull :: int jsval),
      (''From'', JStr ''+15559876543'')]"
  have e: "encoded_body (simulated [] (Inl (JsError ''offline''))) ?body
     = Inr ''To=%2B15551234567&From=%2B15559876543''"
    by code_simp
  have d: "distinct (map fst ?body)" by simp
  have m: "(''Body'', JNull) \<in> set ?body" by simp
  from null_field_omitted [OF d m _ e] e show ?thesis by simp
qed

text \<open>
  C9. Reading the body that is sent with the parser of the format gives back the tuples the
  loop appended, and so, under the name of every field that is a list of strings, that
  list in its order.
\<close>

theorem form_body_round_trip:
  assumes "distinct (map fst body)"
    and "encoded_body P body = Inr s"
  shows "formData P body = Inr (urlencoded_parse s)
         \<and> (\<forall>key ss. (key, JArr (map JStr ss)) \<in> set body
               \<longrightarrow> getAll key (urlencoded_parse s) = ss)"
proof
  from assms(2) show "formData P body = Inr (urlencoded_parse s)"
    by (auto simp: encoded_body_def parse_toString split: sum.splits)
next
  show "\<forall>key ss. (key, JArr (map JStr ss)) \<in> set body \<longrightarrow> getAll key (urlencoded_parse s) = ss"
  proof (intro allI impI)
    fix key ss
    assume "(key, JArr (map JStr ss)) \<in> set body"
    from encoded_body_field [OF assms(2,1) this]
    have "map (ToString P) (map JStr ss) = map Inr (getAll key (urlencoded_parse s))"
      by simp
    then have "map Inr ss = (map Inr (getAll key (urlencoded_parse s)) :: (jserror + string) list)"
      by (simp add: comp_def)
    then show "getAll key (urlencoded_parse s) = ss"
      by (simp add: inj_map_eq_map)
  qed
qed

theorem form_body_round_trip_witness:
  "encoded_body (simulated [] (Inl (JsError ''offline'')))
     [(''MediaUrl'', JArr [JStr ''https://a.example/z.png?x=1&y=2'', JStr ''https://a.example/a.png'']),
      (''To'', JStr ''+15551234567'')]
     = Inr ''MediaUrl=https%3A%2F%2Fa.example%2Fz.png%3Fx%3D1%26y%3D2&MediaUrl=https%3A%2F%2Fa.example%2Fa.png&To=%2B15551234567''
   \<and> getAll ''MediaUrl'' (urlencoded_parse
        ''MediaUrl=https%3A%2F%2Fa.example%2Fz.png%3Fx%3D1%26y%3D2&MediaUrl=https%3A%2F%2Fa.example%2Fa.png&To=%2B15551234567'')
       = [''https://a.example/z.png?x=1&y=2'', ''https://a.example/a.png'']"
proof -
  let ?body = "[(''MediaUrl'', JArr [JStr ''https://a.example/z.png?x=1&y=2'', JStr ''https://a.example/a.png'']),
      (''To'', JStr ''+15551234567'' :: int jsval)]"
  have e: "encoded_body (simulated [] (Inl (JsError ''offline''))) ?body
     = Inr ''MediaUrl=https%3A%2F%2Fa.example%2Fz.png%3Fx%3D1%26y%3D2&MediaUrl=https%3A%2F%2Fa.example%2Fa.png&To=%2B15551234567''"
    by code_simp
  have d: "distinct (map fst ?body)" by simp
  have m: "(''MediaUrl'', JArr (map JStr [''https://a.example/z.png?x=1&y=2'', ''https://a.example/a.png'']))
      \<in> set ?body" by simp
  from form_body_round_trip [OF d e] m e show ?thesis by blast
qed

subsection \<open>The request helper\<close>

lemma field_truthy_iff: "field_truthy f \<longleftrightarrow> f \<noteq> None \<and> f \<noteq> Some []"
  by (cases f) (simp_all add: field_truthy_def)

text \<open>
  What \<^verbatim>\<open>twilioRequest\<close> of \<^verbatim>\<open>src/unnamed/part_000\<close> does once the guard is passed and the
  body is serialised: one request, and an outcome decided by the answer.
\<close>

lemma twilioRequest_sends:
  assumes "field_truthy (apiKey c)" and "field_truthy (apiSecret c)"
    and "encoded_body P body = Inr s"
  shows "twilioRequest P (Some c) endpoint method body =
     (case fetch P (sent_request c endpoint method s) of
        Inl e \<Rightarrow> (Inl e, [sent_request c endpoint method s])
      | Inr response \<Rightarrow>
          if \<not> resp_ok response then
            (case resp_text response of
               Inl e \<Rightarrow> (Inl e, [sent_request c endpoint method s])
             | Inr errorText \<Rightarrow>
                 (Inl (JsError (errorMessage P errorText)), [sent_request c endpoint method s]))
          else (response_json P response, [sent_request c endpoint method s]))"
proof -
  have g: "\<not> (\<not> field_truthy (apiKey c) \<or> \<not> field_truthy (apiSecret c))"
    using assms(1,2) by simp
  show ?thesis
    unfolding twilioRequest_def sent_request_def Let_def option.case
    by (simp only: if_not_P [OF g] assms(3) sum.case)
qed

lemma twilioRequest_body_throws:
  assumes "field_truthy (apiKey c)" and "field_truthy (apiSecret c)"
    and "encoded_body P body = Inl e"
  shows "twilioRequest P (Some c) endpoint method body = (Inl e, [])"
proof -
  have g: "\<not> (\<not> field_truthy (apiKey c) \<or> \<not> field_truthy (apiSecret c))"
    using assms(1,2) by simp
  show ?thesis
    unfolding twilioRequest_def Let_def option.case
    by (simp only: if_not_P [OF g] assms(3) sum.case)
qed

text \<open>The same for \<^verbatim>\<open>src/server.ts\<close>, where there is no guard to pass.\<close>

lemma twilioRequest_server_ts_sends:
  assumes "encoded_body P body = Inr s"
  shows "twilioRequest_server_ts P (Some c) endpoint method body =
     (case fetch P (sent_request_server_ts c endpoint method s) of
        Inl e \<Rightarrow> (Inl e, [sent_request_server_ts c endpoint method s])
      | Inr response \<Rightarrow>
          if \<not> resp_ok response then
            (let errorData = (case response_json P response of Inl e \<Rightarrow> JObj [] | Inr v \<Rightarrow> v)
             in
             case get_property P errorData ''message'' of
               Inl e \<Rightarrow> (Inl e, [sent_request_server_ts c endpoint method s])
             | Inr m \<Rightarrow>
                 if truthy P m then
                   (case ToString P m of
                      Inl e \<Rightarrow> (Inl e, [sent_request_server_ts c endpoint method s])
                    | Inr msg \<Rightarrow> (Inl (JsError msg), [sent_request_server_ts c endpoint method s]))
                 else
                   (Inl (JsError (''Twilio API error: ''
                       @ Number_toString P (resp_status response) @ '' ''
                       @ resp_statusText response)), [sent_request_server_ts c endpoint method s]))
          else (response_json P response, [sent_request_server_ts c endpoint method s]))"
proof -
  from assms obtain fd where fd: "formData P body = Inr fd" and s: "s = URLSearchParams_toString fd"
    by (auto simp: encoded_body_def split: sum.splits)
  show ?thesis
    unfolding twilioRequest_server_ts_def sent_request_server_ts_def Let_def option.case s
    by (simp only: fd sum.case)
qed

lemma twilioRequest_server_ts_body_throws:
  assumes "encoded_body P body = Inl e"
  shows "twilioRequest_server_ts P (Some c) endpoint method body = (Inl e, [])"
proof -
  from assms have fd: "formData P body = Inl e"
    by (auto simp: encoded_body_def split: sum.splits)
  show ?thesis
    unfolding twilioRequest_server_ts_def Let_def option.case
    by (simp only: fd sum.case)
qed

text \<open>
  The message for a descriptor whose \<^verbatim>\<open>message\<close> is a non-empty string: the composed
  string, unless converting \<^verbatim>\<open>code\<close> or \<^verbatim>\<open>more_info\<close> throws, which the \<^verbatim>\<open>catch\<close>
  swallows, leaving the raw text.
\<close>

lemma errorMessage_message:
  assumes "JSON_parse P errorText = Inr (JObj kvs)"
    and "map_of kvs ''message'' = Some (JStr msg)" and "msg \<noteq> []"
  shows "errorMessage P errorText =
     (case property_text P (JObj kvs) ''code'' of
        Inl e \<Rightarrow> errorText
      | Inr code \<Rightarrow>
          (case property_text P (JObj kvs) ''more_info'' of
             Inl e \<Rightarrow> errorText
           | Inr more_info \<Rightarrow>
               ''Code '' @ code @ '': '' @ msg @ '' (More info: '' @ more_info @ '')''))"
proof -
  have g: "get_property P (JObj kvs) ''message'' = Inr (JStr msg)"
    using assms(2) by simp
  have t: "truthy P (JStr msg)" using assms(3) by simp
  show ?thesis
    unfolding errorMessage_def
    by (simp only: assms(1) g t sum.case if_True ToString.simps)
qed

text \<open>A property that is absent or holds no object is converted without a throw.\<close>

lemma property_text_plain:
  assumes "\<forall>v. map_of kvs k = Some v \<longrightarrow> plain v"
  shows "\<exists>t. property_text P (JObj kvs) k = Inr t"
proof (cases "map_of kvs k")
  case None
  then show ?thesis by (simp add: property_text_def)
next
  case (Some v)
  with assms have "plain v" by simp
  from ToString_plain [OF this, of P] Some show ?thesis
    by (simp add: property_text_def)
qed

lemma errorMessage_unparsable:
  "JSON_parse P errorText = Inl e \<Longrightarrow> errorMessage P errorText = errorText"
  unfolding errorMessage_def by (simp only: sum.case)

lemma errorMessage_falsy:
  assumes "JSON_parse P errorText = Inr errorData"
    and "get_property P errorData ''message'' = Inr m" and "\<not> truthy P m"
  shows "errorMessage P errorText = errorText"
  unfolding errorMessage_def by (simp only: assms sum.case if_False)

lemma example_body:
  "encoded_body P example_params = Inr ''To=%2B15551234567&From=%2B15559876543&Body=Hello''"
proof -
  have "formData P example_params
      = Inr [(''To'', ''+15551234567''), (''From'', ''+15559876543''), (''Body'', ''Hello'')]"
    by (simp add: formData_def example_params_def)
  moreover have "URLSearchParams_toString
       [(''To'', ''+15551234567''), (''From'', ''+15559876543''), (''Body'', ''Hello'')]
      = ''To=%2B15551234567&From=%2B15559876543&Body=Hello''"
    by code_simp
  ultimately show ?thesis by (simp only: encoded_body_def sum.case)
qed

lemma example_credentials:
  "field_truthy (apiKey example_config)" "field_truthy (apiSecret example_config)"
  "field_truthy (accountSid example_config)"
  by (simp_all add: example_config_def field_truthy_def)

subsection \<open>Claims about the request helper\<close>

text \<open>
  In \<^verbatim>\<open>src/unnamed/part_000\<close> the helper rejects a configuration that is missing, or whose
  \<^verbatim>\<open>apiKey\<close> or \<^verbatim>\<open>apiSecret\<close> is missing or empty, with the configuration error and before any
  request: what C1 says.
\<close>

lemma twilioRequest_rejects_missing_credentials:
  assumes "config = None
           \<or> (\<exists>c. config = Some c
                  \<and> (apiKey c = None \<or> apiKey c = Some [] \<or> apiSecret c = None \<or> apiSecret c = Some []))"
  shows "twilioRequest P config endpoint method body
           = (Inl (JsError ''Server configuration for Twilio is missing.''), [])"
proof (cases config)
  case None
  then show ?thesis by (simp only: twilioRequest_def Let_def option.case)
next
  case (Some c)
  with assms have "\<not> field_truthy (apiKey c) \<or> \<not> field_truthy (apiSecret c)"
    by (auto simp: field_truthy_iff)
  then show ?thesis
    unfolding twilioRequest_def Let_def Some option.case by (rule if_P)
qed

text \<open>
  C1, in \<^verbatim>\<open>src/server.ts\<close>: the helper has no such check. With an empty key and an empty
  secret it sends the request, authorised with the Base64 of a lone colon, and what comes
  back is the remote refusal.
\<close>

theorem server_ts_request_without_credentials:
  "twilioRequest_server_ts (simulated [] (http_answer 401 ''Unauthorized'' ''Unauthorized''))
     (Some \<lparr>accountSid = Some ''AC1'', apiKey = Some [], apiSecret = Some []\<rparr>)
     (messages_endpoint ''AC1'') POST example_params
   = (Inl (JsError ''Twilio API error: 401 Unauthorized''),
      [\<lparr>req_url = ''https://api.twilio.com/2010-04-01/Accounts/AC1/Messages.json'',
        req_method = POST,
        req_headers = [(''Authorization'', ''Basic Og==''),
                       (''Content-Type'', ''application/x-www-form-urlencoded'')],
        req_body = Some ''To=%2B15551234567&From=%2B15559876543&Body=Hello''\<rparr>])"
proof -
  let ?P = "simulated [] (http_answer 401 ''Unauthorized'' ''Unauthorized'')"
  let ?c = "\<lparr>accountSid = Some ''AC1'', apiKey = Some [], apiSecret = Some []\<rparr>"
  let ?s = "''To=%2B15551234567&From=%2B15559876543&Body=Hello''"
  have b: "base64 '':'' = ''Og==''" by (simp add: base64_char_def Let_def)
  have r: "sent_request_server_ts ?c (messages_endpoint ''AC1'') POST ?s
      = \<lparr>req_url = ''https://api.twilio.com/2010-04-01/Accounts/AC1/Messages.json'',
        req_method = POST,
        req_headers = [(''Authorization'', ''Basic Og==''),
                       (''Content-Type'', ''application/x-www-form-urlencoded'')],
        req_body = Some ?s\<rparr>"
    using b by (simp add: sent_request_server_ts_def field_text_def API_BASE_URL_def
        messages_endpoint_def)
  have f: "fetch ?P (sent_request_server_ts ?c (messages_endpoint ''AC1'') POST ?s)
      = Inr \<lparr>resp_ok = False, resp_status = 401 :: int, resp_statusText = ''Unauthorized'',
          resp_text = Inr ''Unauthorized''\<rparr>"
    by (simp add: simulated_def http_answer_def)
  have j: "response_json ?P \<lparr>resp_ok = False, resp_status = 401 :: int,
          resp_statusText = ''Unauthorized'', resp_text = Inr ''Unauthorized''\<rparr>
      = Inl (JsError ''Unexpected token'')"
    by (simp add: response_json_def simulated_def)
  have n: "Number_toString ?P 401 = ''401''"
    by (simp add: simulated_def show_int_def decimal.simps)
  have "twilioRequest_server_ts ?P (Some ?c) (messages_endpoint ''AC1'') POST example_params
      = (Inl (JsError ''Twilio API error: 401 Unauthorized''),
         [sent_request_server_ts ?c (messages_endpoint ''AC1'') POST ?s])"
    unfolding twilioRequest_server_ts_sends [OF example_body]
    by (simp add: f j n)
  then show ?thesis by (simp only: r)
qed

text \<open>
  C4, as the program has it. In \<^verbatim>\<open>src/unnamed/part_000\<close>, for a response that is not ok and
  whose body parses to an object with a non-empty string as \<^verbatim>\<open>message\<close>, the error thrown
  carries \<^verbatim>\<open>Code <code>: <message> (More info: <more_info>)\<close>, the code and the link
  being the template conversions of the two properties, when neither conversion throws;
  when one throws, the error carries the raw text. Neither throws when each of the two
  properties is absent or holds no object. The test is on the truth value of
  \<^verbatim>\<open>message\<close>, not on its presence.
\<close>

theorem provider_error_composed:
  assumes "field_truthy (apiKey c)" and "field_truthy (apiSecret c)"
    and "encoded_body P body = Inr s"
    and "fetch P (sent_request c endpoint method s) = Inr response"
    and "\<not> resp_ok response"
    and "resp_text response = Inr errorText"
    and "JSON_parse P errorText = Inr (JObj kvs)"
    and "map_of kvs ''message'' = Some (JStr msg)" and "msg \<noteq> []"
  shows "twilioRequest P (Some c) endpoint method body
           = (Inl (JsError
                (case property_text P (JObj kvs) ''code'' of
                   Inl e \<Rightarrow> errorText
                 | Inr code \<Rightarrow>
                     (case property_text P (JObj kvs) ''more_info'' of
                        Inl e \<Rightarrow> errorText
                      | Inr more_info \<Rightarrow>
                          ''Code '' @ code @ '': '' @ msg @ '' (More info: '' @ more_info @ '')''))),
              [sent_request c endpoint method s])
       \<and> ((\<forall>v. map_of kvs ''code'' = Some v \<longrightarrow> plain v)
            \<and> (\<forall>v. map_of kvs ''more_info'' = Some v \<longrightarrow> plain v)
          \<longrightarrow> (\<exists>code more_info.
                 property_text P (JObj kvs) ''code'' = Inr code
               \<and> property_text P (JObj kvs) ''more_info'' = Inr more_info
               \<and> twilioRequest P (Some c) endpoint method body
                   = (Inl (JsError
                        (''Code '' @ code @ '': '' @ msg @ '' (More info: '' @ more_info @ '')'')),
                      [sent_request c endpoint method s])))"
proof -
  have a: "twilioRequest P (Some c) endpoint method body
           = (Inl (JsError
                (case property_text P (JObj kvs) ''code'' of
                   Inl e \<Rightarrow> errorText
                 | Inr code \<Rightarrow>
                     (case property_text P (JObj kvs) ''more_info'' of
                        Inl e \<Rightarrow> errorText
                      | Inr more_info \<Rightarrow>
                          ''Code '' @ code @ '': '' @ msg @ '' (More info: '' @ more_info @ '')''))),
              [sent_request c endpoint method s])"
    unfolding twilioRequest_sends [OF assms(1-3)]
    by (simp only: assms(4-6) sum.case if_True not_False_eq_True
        errorMessage_message [OF assms(7-9)])
  have b: "\<exists>code more_info.
                 property_text P (JObj kvs) ''code'' = Inr code
               \<and> property_text P (JObj kvs) ''more_info'' = Inr more_info
               \<and> twilioRequest P (Some c) endpoint method body
                   = (Inl (JsError
                        (''Code '' @ code @ '': '' @ msg @ '' (More info: '' @ more_info @ '')'')),
                      [sent_request c endpoint method s])"
    if p: "(\<forall>v. map_of kvs ''code'' = Some v \<longrightarrow> plain v)
            \<and> (\<forall>v. map_of kvs ''more_info'' = Some v \<longrightarrow> plain v)"
  proof -
    from p property_text_plain [of kvs "''code''" P] obtain code where
      c: "property_text P (JObj kvs) ''code'' = Inr code" by blast
    from p property_text_plain [of kvs "''more_info''" P] obtain more_info where
      m: "property_text P (JObj kvs) ''more_info'' = Inr more_info" by blast
    from a have "twilioRequest P (Some c) endpoint method body
                   = (Inl (JsError
                        (''Code '' @ code @ '': '' @ msg @ '' (More info: '' @ more_info @ '')'')),
                      [sent_request c endpoint method s])"
      by (simp only: c m sum.case)
    with c m show ?thesis by blast
  qed
  from a b show ?thesis by blast
qed

text \<open>The response of the specification, \<^verbatim>\<open>code\<close> 21211, run through the helper.\<close>

theorem provider_error_composed_witness:
  "twilioRequest
     (simulated [(invalid_to_text, invalid_to_descriptor)] (http_answer 400 ''Bad Request'' invalid_to_text))
     (Some example_config) (messages_endpoint ''AC1'') POST example_params
   = (Inl (JsError ''Code 21211: Invalid 'To' Phone Number (More info: https://...)''),
      [sent_request example_config (messages_endpoint ''AC1'') POST
         ''To=%2B15551234567&From=%2B15559876543&Body=Hello''])"
proof -
  let ?P = "simulated [(invalid_to_text, invalid_to_descriptor)]
              (http_answer 400 ''Bad Request'' invalid_to_text)"
  let ?kvs = "[(''code'', JNum 21211), (''message'', JStr ''Invalid 'To' Phone Number''),
           (''more_info'', JStr ''https://...''), (''status'', JNum (400 :: int))]"
  let ?response = "\<lparr>resp_ok = False, resp_status = 400 :: int, resp_statusText = ''Bad Request'',
        resp_text = Inr invalid_to_text\<rparr>"
  have f: "fetch ?P (sent_request example_config (messages_endpoint ''AC1'') POST
         ''To=%2B15551234567&From=%2B15559876543&Body=Hello'') = Inr ?response"
    by (simp add: simulated_def http_answer_def)
  have ok: "\<not> resp_ok ?response" by simp
  have tx: "resp_text ?response = Inr invalid_to_text" by simp
  have p: "JSON_parse ?P invalid_to_text = Inr (JObj ?kvs)"
    by (simp add: simulated_def invalid_to_descriptor_def)
  have m: "map_of ?kvs ''message'' = Some (JStr ''Invalid 'To' Phone Number'')" by simp
  have ne: "''Invalid 'To' Phone Number'' \<noteq> []" by simp
  have n: "show_int 21211 = ''21211''" by (simp add: show_int_def decimal.simps)
  have c: "property_text ?P (JObj ?kvs) ''code'' = Inr ''21211''"
    by (simp add: property_text_def simulated_def n)
  have mi: "property_text ?P (JObj ?kvs) ''more_info'' = Inr ''https://...''"
    by (simp add: property_text_def)
  from provider_error_composed [OF example_credentials(1,2) example_body f ok tx p m ne,
      THEN conjunct1]
  show ?thesis by (simp only: c mi sum.case) simp
qed

text \<open>
  C4 as stated fails where \<^verbatim>\<open>message\<close> is present and empty, and where \<^verbatim>\<open>message\<close> is a
  non-empty string but \<^verbatim>\<open>code\<close> is an object with a property \<^verbatim>\<open>toString\<close> of its own: in
  both runs the error carries the raw body, not the composed string.
\<close>

theorem present_message_gives_raw_text:
  "fst (twilioRequest
     (simulated [(empty_message_text, empty_message_descriptor)]
        (http_answer 500 ''Internal Server Error'' empty_message_text))
     (Some example_config) (messages_endpoint ''AC1'') POST example_params)
   = Inl (JsError empty_message_text)
   \<and> empty_message_text \<noteq> ''Code 20500:  (More info: https://...)''
   \<and> fst (twilioRequest
     (simulated [(unconvertible_code_text, unconvertible_code_descriptor)]
        (http_answer 400 ''Bad Request'' unconvertible_code_text))
     (Some example_config) (messages_endpoint ''AC1'') POST example_params)
   = Inl (JsError unconvertible_code_text)
   \<and> take 5 unconvertible_code_text \<noteq> ''Code ''"
proof -
  let ?req = "sent_request example_config (messages_endpoint ''AC1'') POST
         ''To=%2B15551234567&From=%2B15559876543&Body=Hello''"
  let ?P = "simulated [(empty_message_text, empty_message_descriptor)]
              (http_answer 500 ''Internal Server Error'' empty_message_text)"
  have p: "JSON_parse ?P empty_message_text = Inr empty_message_descriptor"
    by (simp add: simulated_def)
  have g: "get_property ?P empty_message_descriptor ''message'' = Inr (JStr [])"
    by (simp add: empty_message_descriptor_def)
  have "\<not> truthy ?P (JStr [])" by simp
  from errorMessage_falsy [OF p g this]
  have em: "errorMessage ?P empty_message_text = empty_message_text" .
  have f: "fetch ?P ?req
       = Inr \<lparr>resp_ok = False, resp_status = 500 :: int, resp_statusText = ''Internal Server Error'',
        resp_text = Inr empty_message_text\<rparr>"
    by (simp add: simulated_def http_answer_def)
  have a: "twilioRequest ?P (Some example_config) (messages_endpoint ''AC1'') POST example_params
      = (Inl (JsError empty_message_text), [?req])"
    unfolding twilioRequest_sends [OF example_credentials(1,2) example_body]
    by (simp add: f em)
  have b: "empty_message_text \<noteq> ''Code 20500:  (More info: https://...)''"
    by (simp add: empty_message_text_def)
  let ?Q = "simulated [(unconvertible_code_text, unconvertible_code_descriptor)]
              (http_answer 400 ''Bad Request'' unconvertible_code_text)"
  let ?kvs = "[(''code'', JObj [(''toString'', JNull)]),
           (''message'', JStr ''Invalid 'To' Phone Number''),
           (''more_info'', JStr ''https://...''), (''status'', JNum (400 :: int))]"
  have q: "JSON_parse ?Q unconvertible_code_text = Inr (JObj ?kvs)"
    by (simp add: simulated_def unconvertible_code_descriptor_def)
  have m: "map_of ?kvs ''message'' = Some (JStr ''Invalid 'To' Phone Number'')" by simp
  have ne: "''Invalid 'To' Phone Number'' \<noteq> []" by simp
  have t: "property_text ?Q (JObj ?kvs) ''code''
      = Inl (JsError ''Cannot convert object to primitive value'')"
    by (simp add: property_text_def simulated_def)
  have eq: "errorMessage ?Q unconvertible_code_text = unconvertible_code_text"
    unfolding errorMessage_message [OF q m ne] by (simp only: t sum.case)
  have fq: "fetch ?Q ?req
       = Inr \<lparr>resp_ok = False, resp_status = 400 :: int, resp_statusText = ''Bad Request'',
        resp_text = Inr unconvertible_code_text\<rparr>"
    by (simp add: simulated_def http_answer_def)
  have c: "twilioRequest ?Q (Some example_config) (messages_endpoint ''AC1'') POST example_params
      = (Inl (JsError unconvertible_code_text), [?req])"
    unfolding twilioRequest_sends [OF example_credentials(1,2) example_body]
    by (simp add: fq eq)
  have d: "take 5 unconvertible_code_text \<noteq> ''Code ''"
    by (simp add: unconvertible_code_text_def)
  from a b c d show ?thesis by simp
qed

text \<open>
  In \<^verbatim>\<open>src/server.ts\<close> the same response gives an error that carries the message alone:
  the string of C4 is never composed there.
\<close>

lemma twilioRequest_server_ts_message_alone:
  assumes "encoded_body P body = Inr s"
    and "fetch P (sent_request_server_ts c endpoint method s) = Inr response"
    and "\<not> resp_ok response"
    and "resp_text response = Inr errorText"
    and "JSON_parse P errorText = Inr (JObj kvs)"
    and "map_of kvs ''message'' = Some (JStr msg)" and "msg \<noteq> []"
  shows "twilioRequest_server_ts P (Some c) endpoint method body
           = (Inl (JsError msg), [sent_request_server_ts c endpoint method s])"
proof -
  have j: "response_json P response = Inr (JObj kvs)"
    by (simp add: response_json_def assms(4,5))
  show ?thesis
    unfolding twilioRequest_server_ts_sends [OF assms(1)]
    by (simp add: assms(2,3,6,7) j)
qed

text \<open>
  In \<^verbatim>\<open>src/unnamed/part_000\<close> a response that is not ok and whose body does not parse gives
  an error that carries the body as it came: what C5 says.
\<close>

lemma twilioRequest_raw_text:
  assumes "field_truthy (apiKey c)" and "field_truthy (apiSecret c)"
    and "encoded_body P body = Inr s"
    and "fetch P (sent_request c endpoint method s) = Inr response"
    and "\<not> resp_ok response"
    and "resp_text response = Inr errorText"
    and "JSON_parse P errorText = Inl e"
  shows "twilioRequest P (Some c) endpoint method body
           = (Inl (JsError errorText), [sent_request c endpoint method s])"
  unfolding twilioRequest_sends [OF assms(1-3)]
  by (simp only: assms(4-6) sum.case if_True not_False_eq_True
      errorMessage_unparsable [OF assms(7)])

text \<open>
  C5, in \<^verbatim>\<open>src/server.ts\<close>: the body that does not parse is dropped and the error carries
  the status line. For the body \<^verbatim>\<open>Internal Server Error\<close> of a 500 answer the text is not
  that body.
\<close>

theorem server_ts_status_line_for_unparsable_body:
  "fst (twilioRequest_server_ts
          (simulated [] (http_answer 500 ''Internal Server Error'' ''Internal Server Error''))
          (Some example_config) (messages_endpoint ''AC1'') POST example_params)
   = Inl (JsError ''Twilio API error: 500 Internal Server Error'')"
proof -
  let ?P = "simulated [] (http_answer 500 ''Internal Server Error'' ''Internal Server Error'')"
  let ?s = "''To=%2B15551234567&From=%2B15559876543&Body=Hello''"
  let ?response = "\<lparr>resp_ok = False, resp_status = 500 :: int,
          resp_statusText = ''Internal Server Error'', resp_text = Inr ''Internal Server Error''\<rparr>"
  have f: "fetch ?P (sent_request_server_ts example_config (messages_endpoint ''AC1'') POST ?s)
      = Inr ?response"
    by (simp add: simulated_def http_answer_def)
  have j: "response_json ?P ?response = Inl (JsError ''Unexpected token'')"
    by (simp add: response_json_def simulated_def)
  have n: "Number_toString ?P 500 = ''500''"
    by (simp add: simulated_def show_int_def decimal.simps)
  show ?thesis
    unfolding twilioRequest_server_ts_sends [OF example_body]
    by (simp add: f j n)
qed

subsection \<open>The handler\<close>

lemma send_message_try_sends:
  "field_truthy (accountSid c) \<Longrightarrow>
   send_message_try P (Some c) params =
     (case twilioRequest P (Some c) (messages_endpoint (field_text (accountSid c))) POST params of
        (Inl error, requests) \<Rightarrow> (Inl error, requests)
      | (Inr response, requests) \<Rightarrow> (format_response P response, requests))"
  by (simp add: send_message_try_def)

lemma example_endpoint: "messages_endpoint (field_text (accountSid example_config)) = messages_endpoint ''AC1''"
  by (simp add: example_config_def field_text_def)

text \<open>A run of the handler of \<^verbatim>\<open>src/unnamed/part_000\<close> on the example input.\<close>

lemma example_run:
  assumes "twilioRequest P (Some example_config) (messages_endpoint ''AC1'') POST example_params
             = (r, reqs)"
  shows "send_message P (Some example_config) example_params =
           (case r of
              Inl error \<Rightarrow> (error_result error, reqs)
            | Inr response \<Rightarrow>
                (case format_response P response of
                   Inl error \<Rightarrow> (error_result error, reqs)
                 | Inr result \<Rightarrow> (result, reqs)))"
  unfolding send_message_def send_message_try_sends [OF example_credentials(3)] example_endpoint assms
  by (simp split: sum.split)

text \<open>
  When every request is answered by an ok response whose body does not parse, neither
  helper returns a value: it throws, and once a request has gone out what it throws is the
  parser's error.
\<close>

lemma twilioRequest_malformed:
  assumes "\<forall>request. fetch P request = Inr response"
    and "resp_ok response" and "resp_text response = Inr t" and "JSON_parse P t = Inl e"
  shows "\<exists>err reqs. twilioRequest P config endpoint method body = (Inl err, reqs)
           \<and> (reqs \<noteq> [] \<longrightarrow> err = e)"
proof (cases "config = None
           \<or> (\<exists>c. config = Some c
                  \<and> (apiKey c = None \<or> apiKey c = Some [] \<or> apiSecret c = None \<or> apiSecret c = Some []))")
  case True
  from twilioRequest_rejects_missing_credentials [OF True] show ?thesis by blast
next
  case False
  then obtain c where c: "config = Some c" and k: "field_truthy (apiKey c)"
    and s: "field_truthy (apiSecret c)"
    by (cases config) (auto simp: field_truthy_iff)
  show ?thesis
  proof (cases "encoded_body P body")
    case (Inl e')
    from twilioRequest_body_throws [OF k s Inl] c show ?thesis by blast
  next
    case (Inr b)
    have j: "response_json P response = Inl e"
      by (simp add: response_json_def assms(3,4))
    have "twilioRequest P config endpoint method body = (Inl e, [sent_request c endpoint method b])"
      unfolding c twilioRequest_sends [OF k s Inr]
      by (simp add: assms(1,2) j)
    then show ?thesis by blast
  qed
qed

lemma twilioRequest_server_ts_malformed:
  assumes "\<forall>request. fetch P request = Inr response"
    and "resp_ok response" and "resp_text response = Inr t" and "JSON_parse P t = Inl e"
  shows "\<exists>err reqs. twilioRequest_server_ts P config endpoint method body = (Inl err, reqs)
           \<and> (reqs \<noteq> [] \<longrightarrow> err = e)"
proof (cases config)
  case None
  then show ?thesis by (simp add: twilioRequest_server_ts_def)
next
  case (Some c)
  show ?thesis
  proof (cases "encoded_body P body")
    case (Inl e')
    from twilioRequest_server_ts_body_throws [OF Inl] Some show ?thesis by blast
  next
    case (Inr b)
    have j: "response_json P response = Inl e"
      by (simp add: response_json_def assms(3,4))
    have "twilioRequest_server_ts P config endpoint method body
        = (Inl e, [sent_request_server_ts c endpoint method b])"
      unfolding Some twilioRequest_server_ts_sends [OF Inr]
      by (simp add: assms(1,2) j)
    then show ?thesis by blast
  qed
qed

lemma send_message_try_throws:
  assumes "\<And>endpoint. \<exists>err reqs. twilioRequest P config endpoint POST params = (Inl err, reqs)
           \<and> (reqs \<noteq> [] \<longrightarrow> err = e)"
  shows "\<exists>err reqs. send_message_try P config params = (Inl err, reqs) \<and> (reqs \<noteq> [] \<longrightarrow> err = e)"
proof (cases config)
  case None
  then show ?thesis by (simp add: send_message_try_def)
next
  case (Some c)
  show ?thesis
  proof (cases "field_truthy (accountSid c)")
    case False
    with Some show ?thesis by (simp add: send_message_try_def)
  next
    case True
    from assms [of "messages_endpoint (field_text (accountSid c))"]
    obtain err reqs where
      "twilioRequest P config (messages_endpoint (field_text (accountSid c))) POST params = (Inl err, reqs)"
      and "reqs \<noteq> [] \<longrightarrow> err = e" by blast
    with Some True show ?thesis by (simp add: send_message_try_def)
  qed
qed

lemma send_message_try_server_ts_throws:
  assumes "\<And>endpoint. \<exists>err reqs. twilioRequest_server_ts P config endpoint POST params = (Inl err, reqs)
           \<and> (reqs \<noteq> [] \<longrightarrow> err = e)"
  shows "\<exists>err reqs. send_message_try_server_ts P config params = (Inl err, reqs)
           \<and> (reqs \<noteq> [] \<longrightarrow> err = e)"
proof (cases config)
  case None
  then show ?thesis by (simp add: send_message_try_server_ts_def)
next
  case (Some c)
  from assms [of "messages_endpoint (field_text (accountSid c))"]
  obtain err reqs where
    "twilioRequest_server_ts P config (messages_endpoint (field_text (accountSid c))) POST params
       = (Inl err, reqs)"
    and "reqs \<noteq> [] \<longrightarrow> err = e" by blast
  with Some show ?thesis by (simp add: send_message_try_server_ts_def)
qed

subsection \<open>Claims about the outcome of an invocation\<close>

text \<open>
  C7. For an ok (2xx) response whose body does not parse as JSON, in both files: the helper,
  once it has sent the request, throws the parser's error; the handler ends in the error
  outcome, never in the success summary; and when a request has gone out the error shown
  is the parser's.
\<close>

theorem malformed_success_body_is_error:
  assumes "\<forall>request. fetch P request = Inr response"
    and "resp_ok response" and "resp_text response = Inr t" and "JSON_parse P t = Inl e"
  shows "(snd (twilioRequest P config endpoint method body) \<noteq> []
            \<longrightarrow> fst (twilioRequest P config endpoint method body) = Inl e)
       \<and> (snd (twilioRequest_server_ts P config endpoint method body) \<noteq> []
            \<longrightarrow> fst (twilioRequest_server_ts P config endpoint method body) = Inl e)
       \<and> (\<exists>error. fst (send_message P config params) = error_result error)
       \<and> (\<exists>error. fst (send_message_server_ts P config params) = error_result error)
       \<and> (snd (send_message P config params) \<noteq> []
            \<longrightarrow> fst (send_message P config params) = error_result e)
       \<and> (snd (send_message_server_ts P config params) \<noteq> []
            \<longrightarrow> fst (send_message_server_ts P config params) = error_result e)"
proof -
  from twilioRequest_malformed [OF assms] obtain err reqs where
    "twilioRequest P config endpoint method body = (Inl err, reqs)" "reqs \<noteq> [] \<longrightarrow> err = e"
    by blast
  then have a: "snd (twilioRequest P config endpoint method body) \<noteq> []
            \<longrightarrow> fst (twilioRequest P config endpoint method body) = Inl e" by simp
  from twilioRequest_server_ts_malformed [OF assms] obtain err' reqs' where
    "twilioRequest_server_ts P config endpoint method body = (Inl err', reqs')"
    "reqs' \<noteq> [] \<longrightarrow> err' = e"
    by blast
  then have b: "snd (twilioRequest_server_ts P config endpoint method body) \<noteq> []
            \<longrightarrow> fst (twilioRequest_server_ts P config endpoint method body) = Inl e" by simp
  from send_message_try_throws [of P config params e, OF twilioRequest_malformed [OF assms]]
  obtain err1 reqs1 where
    "send_message_try P config params = (Inl err1, reqs1)" "reqs1 \<noteq> [] \<longrightarrow> err1 = e"
    by blast
  then have c: "fst (send_message P config params) = error_result err1"
    and d: "snd (send_message P config params) \<noteq> []
            \<longrightarrow> fst (send_message P config params) = error_result e"
    by (auto simp: send_message_def)
  from send_message_try_server_ts_throws [of P config params e,
      OF twilioRequest_server_ts_malformed [OF assms]]
  obtain err2 reqs2 where
    "send_message_try_server_ts P config params = (Inl err2, reqs2)" "reqs2 \<noteq> [] \<longrightarrow> err2 = e"
    by blast
  then have f: "fst (send_message_server_ts P config params) = error_result err2"
    and g: "snd (send_message_server_ts P config params) \<noteq> []
            \<longrightarrow> fst (send_message_server_ts P config params) = error_result e"
    by (auto simp: send_message_server_ts_def)
  from a b c d f g show ?thesis by blast
qed

theorem malformed_success_body_is_error_witness:
  "send_message (simulated [] (http_answer 201 ''Created'' ''<html>Created</html>''))
     (Some example_config) example_params
   = (\<lparr>content = [TextBlock ''Error sending message: Unexpected token''], isError = True\<rparr>,
      [sent_request example_config (messages_endpoint ''AC1'') POST
         ''To=%2B15551234567&From=%2B15559876543&Body=Hello''])"
proof -
  let ?P = "simulated [] (http_answer 201 ''Created'' ''<html>Created</html>'')"
  let ?response = "\<lparr>resp_ok = True, resp_status = 201 :: int, resp_statusText = ''Created'',
        resp_text = Inr ''<html>Created</html>''\<rparr>"
  let ?req = "sent_request example_config (messages_endpoint ''AC1'') POST
         ''To=%2B15551234567&From=%2B15559876543&Body=Hello''"
  have f: "\<forall>request. fetch ?P request = Inr ?response"
    by (simp add: simulated_def http_answer_def)
  have ok: "resp_ok ?response" by simp
  have tx: "resp_text ?response = Inr ''<html>Created</html>''" by simp
  have p: "JSON_parse ?P ''<html>Created</html>'' = Inl (JsError ''Unexpected token'')"
    by (simp add: simulated_def)
  have "fetch ?P ?req = Inr ?response" using f by blast
  then have "\<exists>r. twilioRequest ?P (Some example_config) (messages_endpoint ''AC1'') POST example_params
      = (r, [?req])"
    unfolding twilioRequest_sends [OF example_credentials(1,2) example_body]
    by simp
  then obtain r where r: "twilioRequest ?P (Some example_config) (messages_endpoint ''AC1'') POST
      example_params = (r, [?req])" by blast
  have s: "snd (send_message ?P (Some example_config) example_params) = [?req]"
    unfolding example_run [OF r] by (simp split: sum.split)
  from malformed_success_body_is_error [OF f ok tx p, of "Some example_config" _ _ _ example_params] s
  have "fst (send_message ?P (Some example_config) example_params)
      = error_result (JsError ''Unexpected token'')" by simp
  with s show ?thesis
    by (simp add: error_result_def prod_eq_iff)
qed

lemma send_message_try_server_ts_sends:
  "send_message_try_server_ts P (Some c) params =
     (case twilioRequest_server_ts P (Some c) (messages_endpoint (field_text (accountSid c)))
             POST params of
        (Inl error, requests) \<Rightarrow> (Inl error, requests)
      | (Inr response, requests) \<Rightarrow> (format_response P response, requests))"
  by (simp add: send_message_try_server_ts_def)

text \<open>The \<^verbatim>\<open>try\<close> block ends in a success result or in an error, in both files.\<close>

lemma format_response_cases:
  "(\<exists>lines. format_response P response = Inr (success_result lines))
   \<or> (\<exists>e. format_response P response = Inl e)"
  by (cases "responseText P response") (auto simp: format_response_def)

lemma send_message_try_cases:
  "(\<exists>lines. fst (send_message_try P config params) = Inr (success_result lines))
   \<or> (\<exists>e. fst (send_message_try P config params) = Inl e)"
proof (cases config)
  case None
  then show ?thesis by (simp add: send_message_try_def)
next
  case (Some c)
  show ?thesis
  proof (cases "field_truthy (accountSid c)")
    case False
    with Some show ?thesis by (simp add: send_message_try_def)
  next
    case True
    obtain r reqs where r: "twilioRequest P (Some c) (messages_endpoint (field_text (accountSid c)))
        POST params = (r, reqs)" by (cases "twilioRequest P (Some c) (messages_endpoint (field_text (accountSid c))) POST params")
    show ?thesis
    proof (cases r)
      case (Inl e)
      with r Some True show ?thesis by (simp add: send_message_try_sends)
    next
      case (Inr response)
      with r Some True format_response_cases [of P response] show ?thesis
        by (auto simp: send_message_try_sends)
    qed
  qed
qed

lemma send_message_try_server_ts_cases:
  "(\<exists>lines. fst (send_message_try_server_ts P config params) = Inr (success_result lines))
   \<or> (\<exists>e. fst (send_message_try_server_ts P config params) = Inl e)"
proof (cases config)
  case None
  then show ?thesis by (simp add: send_message_try_server_ts_def)
next
  case (Some c)
  obtain r reqs where r: "twilioRequest_server_ts P (Some c)
      (messages_endpoint (field_text (accountSid c))) POST params = (r, reqs)"
    by (cases "twilioRequest_server_ts P (Some c) (messages_endpoint (field_text (accountSid c))) POST params")
  show ?thesis
  proof (cases r)
    case (Inl e)
    with r Some show ?thesis by (simp add: send_message_try_server_ts_sends)
  next
    case (Inr response)
    with r Some format_response_cases [of P response] show ?thesis
      by (auto simp: send_message_try_server_ts_sends)
  qed
qed

lemma twilioRequest_returns:
  assumes "field_truthy (apiKey c)" and "field_truthy (apiSecret c)"
    and "encoded_body P body = Inr s"
    and "fetch P (sent_request c endpoint method s) = Inr response"
    and "resp_ok response"
    and "resp_text response = Inr t"
    and "JSON_parse P t = Inr v"
  shows "twilioRequest P (Some c) endpoint method body = (Inr v, [sent_request c endpoint method s])"
  unfolding twilioRequest_sends [OF assms(1-3)]
  by (simp add: assms(4-7) response_json_def)

text \<open>Strings without a line break, joined by line breaks, are the lines of the result.\<close>

lemma lines_of_join:
  "ls \<noteq> [] \<Longrightarrow> \<forall>l \<in> set ls. CHR 0x0A \<notin> set l \<Longrightarrow> lines_of (join newline ls) = ls"
proof (induction newline ls rule: join.induct)
  case 1
  then show ?case by simp
next
  case (2 x)
  then show ?case by (simp add: lines_of_def split_on_plain)
next
  case (3 x y ys)
  then have "lines_of (join newline (y # ys)) = y # ys" by simp
  moreover have "split_on (CHR 0x0A) x = [x]"
    using 3 by (simp add: split_on_plain)
  ultimately show ?case
    by (simp add: lines_of_def newline_def split_on_append)
qed

text \<open>The lines of the answer for a response whose four fields are strings.\<close>

lemma responseText_strings:
  assumes "map_of kvs ''sid'' = Some (JStr sid)"
    and "map_of kvs ''status'' = Some (JStr status)"
    and "map_of kvs ''to'' = Some (JStr to)"
    and "map_of kvs ''from'' = Some (JStr from)"
  shows "responseText P (JObj kvs) =
     (case map_of kvs ''error_message'' of
        None \<Rightarrow>
          Inr [''Message sent successfully!'', ''SID: '' @ sid, ''Status: '' @ status,
               ''To: '' @ to, ''From: '' @ from]
      | Some error_message \<Rightarrow>
          if truthy P error_message then
            (case ToString P error_message of
               Inl e \<Rightarrow> Inl e
             | Inr em \<Rightarrow>
                 Inr [''Message sent successfully!'', ''SID: '' @ sid, ''Status: '' @ status,
                      ''To: '' @ to, ''From: '' @ from, ''Error: '' @ em])
          else
            Inr [''Message sent successfully!'', ''SID: '' @ sid, ''Status: '' @ status,
                 ''To: '' @ to, ''From: '' @ from])"
proof -
  have p: "property_text P (JObj kvs) ''sid'' = Inr sid"
    "property_text P (JObj kvs) ''status'' = Inr status"
    "property_text P (JObj kvs) ''to'' = Inr to"
    "property_text P (JObj kvs) ''from'' = Inr from"
    using assms by (simp_all add: property_text_def)
  show ?thesis
    unfolding responseText_def
    by (simp only: p sum.case Let_def) (simp split: option.split sum.split)
qed

text \<open>The text returned for an ok response with such a body, on the example input.\<close>

lemma example_success_run:
  assumes "map_of kvs ''sid'' = Some (JStr sid)"
    and "map_of kvs ''status'' = Some (JStr status)"
    and "map_of kvs ''to'' = Some (JStr to)"
    and "map_of kvs ''from'' = Some (JStr from)"
  shows "text_of (fst (send_message (simulated [(t, JObj kvs)] (http_answer 201 ''Created'' t))
            (Some example_config) example_params))
     = (case responseText (simulated [(t, JObj kvs)] (http_answer 201 ''Created'' t)) (JObj kvs) of
          Inl e \<Rightarrow> ''Error sending message: '' @ message e
        | Inr lines \<Rightarrow> join newline lines)"
proof -
  let ?P = "simulated [(t, JObj kvs)] (http_answer 201 ''Created'' t)"
  let ?req = "sent_request example_config (messages_endpoint ''AC1'') POST
         ''To=%2B15551234567&From=%2B15559876543&Body=Hello''"
  have f: "fetch ?P ?req = Inr \<lparr>resp_ok = True, resp_status = 201 :: int,
      resp_statusText = ''Created'', resp_text = Inr t\<rparr>"
    by (simp add: simulated_def http_answer_def)
  have p: "JSON_parse ?P t = Inr (JObj kvs)"
    by (simp add: simulated_def)
  have "twilioRequest ?P (Some example_config) (messages_endpoint ''AC1'') POST example_params
      = (Inr (JObj kvs), [?req])"
    by (rule twilioRequest_returns [OF example_credentials(1,2) example_body f _ _ p]) simp_all
  from example_run [OF this] show ?thesis
    by (simp add: format_response_def text_of_def success_result_def error_result_def
        split: sum.split)
qed

text \<open>
  C8, as the program has it. Whatever the \<^verbatim>\<open>try\<close> block of the handler throws, the handler
  returns one text block, \<^verbatim>\<open>Error sending message: \<close> followed by the message of the error,
  with the error flag set; every error thrown by the helper is thrown by the \<^verbatim>\<open>try\<close>
  block; and the handler always returns a success result or such an error result, so
  nothing reaches the host as an exception. This holds in both files.
\<close>

theorem errors_become_error_outcome:
  "(\<forall>e. fst (send_message_try P config params) = Inl e
        \<longrightarrow> fst (send_message P config params)
              = \<lparr>content = [TextBlock (''Error sending message: '' @ message e)], isError = True\<rparr>)
   \<and> (\<forall>e. fst (send_message_try_server_ts P config params) = Inl e
        \<longrightarrow> fst (send_message_server_ts P config params)
              = \<lparr>content = [TextBlock (''Error sending message: '' @ message e)], isError = True\<rparr>)
   \<and> (\<forall>c e. config = Some c \<and> field_truthy (accountSid c)
          \<and> fst (twilioRequest P config (messages_endpoint (field_text (accountSid c))) POST params)
              = Inl e
        \<longrightarrow> fst (send_message_try P config params) = Inl e)
   \<and> (\<forall>c e. config = Some c
          \<and> fst (twilioRequest_server_ts P config (messages_endpoint (field_text (accountSid c)))
                  POST params) = Inl e
        \<longrightarrow> fst (send_message_try_server_ts P config params) = Inl e)
   \<and> ((\<exists>lines. fst (send_message P config params) = success_result lines)
        \<or> (\<exists>e. fst (send_message P config params) = error_result e))
   \<and> ((\<exists>lines. fst (send_message_server_ts P config params) = success_result lines)
        \<or> (\<exists>e. fst (send_message_server_ts P config params) = error_result e))"
proof (intro conjI allI impI)
  fix e assume "fst (send_message_try P config params) = Inl e"
  then show "fst (send_message P config params)
      = \<lparr>content = [TextBlock (''Error sending message: '' @ message e)], isError = True\<rparr>"
    by (cases "send_message_try P config params") (simp add: send_message_def error_result_def)
next
  fix e assume "fst (send_message_try_server_ts P config params) = Inl e"
  then show "fst (send_message_server_ts P config params)
      = \<lparr>content = [TextBlock (''Error sending message: '' @ message e)], isError = True\<rparr>"
    by (cases "send_message_try_server_ts P config params")
      (simp add: send_message_server_ts_def error_result_def)
next
  fix c e
  assume a: "config = Some c \<and> field_truthy (accountSid c)
          \<and> fst (twilioRequest P config (messages_endpoint (field_text (accountSid c))) POST params)
              = Inl e"
  then show "fst (send_message_try P config params) = Inl e"
    by (cases "twilioRequest P (Some c) (messages_endpoint (field_text (accountSid c))) POST params")
      (auto simp: send_message_try_sends)
next
  fix c e
  assume a: "config = Some c
          \<and> fst (twilioRequest_server_ts P config (messages_endpoint (field_text (accountSid c)))
                  POST params) = Inl e"
  then show "fst (send_message_try_server_ts P config params) = Inl e"
    by (cases "twilioRequest_server_ts P (Some c) (messages_endpoint (field_text (accountSid c))) POST params")
      (auto simp: send_message_try_server_ts_sends)
next
  from send_message_try_cases [of P config params]
  show "(\<exists>lines. fst (send_message P config params) = success_result lines)
        \<or> (\<exists>e. fst (send_message P config params) = error_result e)"
    by (cases "send_message_try P config params") (auto simp: send_message_def)
next
  from send_message_try_server_ts_cases [of P config params]
  show "(\<exists>lines. fst (send_message_server_ts P config params) = success_result lines)
        \<or> (\<exists>e. fst (send_message_server_ts P config params) = error_result e)"
    by (cases "send_message_try_server_ts P config params") (auto simp: send_message_server_ts_def)
qed

text \<open>A transport error, \<^verbatim>\<open>fetch\<close> rejecting, run through the handler.\<close>

theorem errors_become_error_outcome_witness:
  "fst (send_message (simulated [] (Inl (JsError ''fetch failed''))) (Some example_config)
          example_params)
   = \<lparr>content = [TextBlock ''Error sending message: fetch failed''], isError = True\<rparr>"
proof -
  let ?P = "simulated [] (Inl (JsError ''fetch failed''))"
  have "fetch ?P (sent_request example_config (messages_endpoint ''AC1'') POST
         ''To=%2B15551234567&From=%2B15559876543&Body=Hello'') = Inl (JsError ''fetch failed'')"
    by (simp add: simulated_def)
  then have t: "fst (twilioRequest ?P (Some example_config)
      (messages_endpoint (field_text (accountSid example_config))) POST example_params)
      = Inl (JsError ''fetch failed'')"
    unfolding example_endpoint twilioRequest_sends [OF example_credentials(1,2) example_body]
    by simp
  from errors_become_error_outcome [of ?P "Some example_config" example_params] t
    example_credentials(3)
  have "fst (send_message_try ?P (Some example_config) example_params) = Inl (JsError ''fetch failed'')"
    by blast
  with errors_become_error_outcome [of ?P "Some example_config" example_params]
  show ?thesis by simp
qed

text \<open>
  C8 as stated fails on the single line: the message is passed on as it is, and the raw
  body of an error page has line breaks.
\<close>

theorem error_text_of_two_lines:
  "text_of (fst (send_message
       (simulated [] (http_answer 502 ''Bad Gateway'' (''<html>'' @ newline @ ''</html>'')))
       (Some example_config) example_params))
     = ''Error sending message: <html>'' @ newline @ ''</html>''
   \<and> length (lines_of (text_of (fst (send_message
       (simulated [] (http_answer 502 ''Bad Gateway'' (''<html>'' @ newline @ ''</html>'')))
       (Some example_config) example_params)))) = 2"
proof -
  let ?body = "''<html>'' @ newline @ ''</html>''"
  let ?P = "simulated [] (http_answer 502 ''Bad Gateway'' ?body)"
  let ?req = "sent_request example_config (messages_endpoint ''AC1'') POST
         ''To=%2B15551234567&From=%2B15559876543&Body=Hello''"
  let ?response = "\<lparr>resp_ok = False, resp_status = 502 :: int, resp_statusText = ''Bad Gateway'',
        resp_text = Inr ?body\<rparr>"
  have f: "fetch ?P ?req = Inr ?response"
    by (simp add: simulated_def http_answer_def)
  have p: "JSON_parse ?P ?body = Inl (JsError ''Unexpected token'')"
    by (simp add: simulated_def)
  have "twilioRequest ?P (Some example_config) (messages_endpoint ''AC1'') POST example_params
      = (Inl (JsError ?body), [?req])"
    by (rule twilioRequest_raw_text [OF example_credentials(1,2) example_body f _ _ p]) simp_all
  from example_run [OF this]
  have "text_of (fst (send_message ?P (Some example_config) example_params))
      = ''Error sending message: <html>'' @ newline @ ''</html>''"
    by (simp add: error_result_def text_of_def)
  moreover have "length (lines_of (''Error sending message: <html>'' @ newline @ ''</html>'')) = 2"
    by (simp add: lines_of_def newline_def)
  ultimately show ?thesis by simp
qed

text \<open>
  C6, as the program has it. For a response whose \<^verbatim>\<open>sid\<close>, \<^verbatim>\<open>status\<close>, \<^verbatim>\<open>to\<close> and
  \<^verbatim>\<open>from\<close> are strings, the formatter returns a result that is not marked as an error and
  whose text is the success line, then SID, status, recipient and sender, joined by line
  breaks: five lines when no field has a line break of its own. When the response has no
  \<^verbatim>\<open>error_message\<close> that is all; when \<^verbatim>\<open>error_message\<close> is a non-empty string, \<^verbatim>\<open>Error: \<close>
  and that string follow: the sixth line, when neither the fields nor the string have a
  line break.
\<close>

theorem success_summary:
  assumes "map_of kvs ''sid'' = Some (JStr sid)"
    and "map_of kvs ''status'' = Some (JStr status)"
    and "map_of kvs ''to'' = Some (JStr to)"
    and "map_of kvs ''from'' = Some (JStr from)"
  shows "(map_of kvs ''error_message'' = None \<longrightarrow>
            format_response P (JObj kvs) =
              Inr \<lparr>content = [TextBlock (''Message sent successfully!'' @ newline
                        @ ''SID: '' @ sid @ newline @ ''Status: '' @ status @ newline
                        @ ''To: '' @ to @ newline @ ''From: '' @ from)],
                   isError = False\<rparr>
            \<and> (CHR 0x0A \<notin> set (sid @ status @ to @ from) \<longrightarrow>
                 lines_of (''Message sent successfully!'' @ newline
                        @ ''SID: '' @ sid @ newline @ ''Status: '' @ status @ newline
                        @ ''To: '' @ to @ newline @ ''From: '' @ from)
                   = [''Message sent successfully!'', ''SID: '' @ sid, ''Status: '' @ status,
                      ''To: '' @ to, ''From: '' @ from]))
       \<and> (\<forall>em. map_of kvs ''error_message'' = Some (JStr em) \<and> em \<noteq> [] \<longrightarrow>
            format_response P (JObj kvs) =
              Inr \<lparr>content = [TextBlock (''Message sent successfully!'' @ newline
                        @ ''SID: '' @ sid @ newline @ ''Status: '' @ status @ newline
                        @ ''To: '' @ to @ newline @ ''From: '' @ from @ newline
                        @ ''Error: '' @ em)],
                   isError = False\<rparr>
            \<and> (CHR 0x0A \<notin> set (sid @ status @ to @ from @ em) \<longrightarrow>
                 lines_of (''Message sent successfully!'' @ newline
                        @ ''SID: '' @ sid @ newline @ ''Status: '' @ status @ newline
                        @ ''To: '' @ to @ newline @ ''From: '' @ from @ newline
                        @ ''Error: '' @ em)
                   = [''Message sent successfully!'', ''SID: '' @ sid, ''Status: '' @ status,
                      ''To: '' @ to, ''From: '' @ from, ''Error: '' @ em]))"
proof -
  have f: "map_of kvs ''error_message'' = None \<Longrightarrow>
            format_response P (JObj kvs) =
              Inr \<lparr>content = [TextBlock (''Message sent successfully!'' @ newline
                        @ ''SID: '' @ sid @ newline @ ''Status: '' @ status @ newline
                        @ ''To: '' @ to @ newline @ ''From: '' @ from)],
                   isError = False\<rparr>"
    unfolding format_response_def responseText_strings [OF assms]
    by (simp add: success_result_def)
  have g: "\<And>em. map_of kvs ''error_message'' = Some (JStr em) \<and> em \<noteq> [] \<Longrightarrow>
            format_response P (JObj kvs) =
              Inr \<lparr>content = [TextBlock (''Message sent successfully!'' @ newline
                        @ ''SID: '' @ sid @ newline @ ''Status: '' @ status @ newline
                        @ ''To: '' @ to @ newline @ ''From: '' @ from @ newline
                        @ ''Error: '' @ em)],
                   isError = False\<rparr>"
    unfolding format_response_def responseText_strings [OF assms]
    by (simp add: success_result_def)
  have l5: "CHR 0x0A \<notin> set (sid @ status @ to @ from) \<Longrightarrow>
                 lines_of (''Message sent successfully!'' @ newline
                        @ ''SID: '' @ sid @ newline @ ''Status: '' @ status @ newline
                        @ ''To: '' @ to @ newline @ ''From: '' @ from)
                   = [''Message sent successfully!'', ''SID: '' @ sid, ''Status: '' @ status,
                      ''To: '' @ to, ''From: '' @ from]"
    using lines_of_join [of "[''Message sent successfully!'', ''SID: '' @ sid, ''Status: '' @ status,
                      ''To: '' @ to, ''From: '' @ from]"]
    by simp
  have l6: "\<And>em. CHR 0x0A \<notin> set (sid @ status @ to @ from @ em) \<Longrightarrow>
                 lines_of (''Message sent successfully!'' @ newline
                        @ ''SID: '' @ sid @ newline @ ''Status: '' @ status @ newline
                        @ ''To: '' @ to @ newline @ ''From: '' @ from @ newline
                        @ ''Error: '' @ em)
                   = [''Message sent successfully!'', ''SID: '' @ sid, ''Status: '' @ status,
                      ''To: '' @ to, ''From: '' @ from, ''Error: '' @ em]"
    using lines_of_join [of "[''Message sent successfully!'', ''SID: '' @ sid, ''Status: '' @ status,
                      ''To: '' @ to, ''From: '' @ from, ''Error: '' @ em]" for em]
    by simp
  from f g l5 l6 show ?thesis by blast
qed

text \<open>The two responses of the specification.\<close>

theorem success_summary_witness:
  "format_response (simulated [] (Inl (JsError ''offline''))) queued_message
     = Inr \<lparr>content = [TextBlock (''Message sent successfully!'' @ newline @ ''SID: SM1'' @ newline
                 @ ''Status: queued'' @ newline @ ''To: +15551234567'' @ newline
                 @ ''From: +15559876543'')],
            isError = False\<rparr>
   \<and> lines_of (''Message sent successfully!'' @ newline @ ''SID: SM1'' @ newline
                 @ ''Status: queued'' @ newline @ ''To: +15551234567'' @ newline
                 @ ''From: +15559876543'')
     = [''Message sent successfully!'', ''SID: SM1'', ''Status: queued'', ''To: +15551234567'',
        ''From: +15559876543'']
   \<and> format_response (simulated [] (Inl (JsError ''offline''))) rejected_message
     = Inr \<lparr>content = [TextBlock (''Message sent successfully!'' @ newline @ ''SID: SM1'' @ newline
                 @ ''Status: queued'' @ newline @ ''To: +15551234567'' @ newline
                 @ ''From: +15559876543'' @ newline @ ''Error: Carrier rejected'')],
            isError = False\<rparr>
   \<and> lines_of (''Message sent successfully!'' @ newline @ ''SID: SM1'' @ newline
                 @ ''Status: queued'' @ newline @ ''To: +15551234567'' @ newline
                 @ ''From: +15559876543'' @ newline @ ''Error: Carrier rejected'')
     = [''Message sent successfully!'', ''SID: SM1'', ''Status: queued'', ''To: +15551234567'',
        ''From: +15559876543'', ''Error: Carrier rejected'']"
proof -
  let ?P = "simulated [] (Inl (JsError ''offline''))"
  let ?q = "[(''sid'', JStr ''SM1''), (''status'', JStr ''queued''), (''to'', JStr ''+15551234567''),
           (''from'', JStr ''+15559876543'' :: int jsval)]"
  let ?r = "?q @ [(''error_message'', JStr ''Carrier rejected'')]"
  have q: "map_of ?q ''sid'' = Some (JStr ''SM1'')" "map_of ?q ''status'' = Some (JStr ''queued'')"
    "map_of ?q ''to'' = Some (JStr ''+15551234567'')"
    "map_of ?q ''from'' = Some (JStr ''+15559876543'')" "map_of ?q ''error_message'' = None"
    by simp_all
  have r: "map_of ?r ''sid'' = Some (JStr ''SM1'')" "map_of ?r ''status'' = Some (JStr ''queued'')"
    "map_of ?r ''to'' = Some (JStr ''+15551234567'')"
    "map_of ?r ''from'' = Some (JStr ''+15559876543'')"
    "map_of ?r ''error_message'' = Some (JStr ''Carrier rejected'')"
    by simp_all
  have n5: "CHR 0x0A \<notin> set (''SM1'' @ ''queued'' @ ''+15551234567'' @ ''+15559876543'')"
    by simp
  have n6: "CHR 0x0A \<notin> set (''SM1'' @ ''queued'' @ ''+15551234567'' @ ''+15559876543''
      @ ''Carrier rejected'')"
    by simp
  have ne: "''Carrier rejected'' \<noteq> []" by simp
  from success_summary [OF q(1-4), of ?P, THEN conjunct1, rule_format, OF q(5)]
  have a: "format_response ?P (JObj ?q)
     = Inr \<lparr>content = [TextBlock (''Message sent successfully!'' @ newline @ ''SID: '' @ ''SM1''
                 @ newline @ ''Status: '' @ ''queued'' @ newline @ ''To: '' @ ''+15551234567''
                 @ newline @ ''From: '' @ ''+15559876543'')],
            isError = False\<rparr>"
    and a': "lines_of (''Message sent successfully!'' @ newline @ ''SID: '' @ ''SM1''
                 @ newline @ ''Status: '' @ ''queued'' @ newline @ ''To: '' @ ''+15551234567''
                 @ newline @ ''From: '' @ ''+15559876543'')
      = [''Message sent successfully!'', ''SID: '' @ ''SM1'', ''Status: '' @ ''queued'',
         ''To: '' @ ''+15551234567'', ''From: '' @ ''+15559876543'']"
    using n5 by blast+
  from success_summary [OF r(1-4), of ?P, THEN conjunct2, rule_format, of "''Carrier rejected''"]
    r(5) ne
  have b: "format_response ?P (JObj ?r)
     = Inr \<lparr>content = [TextBlock (''Message sent successfully!'' @ newline @ ''SID: '' @ ''SM1''
                 @ newline @ ''Status: '' @ ''queued'' @ newline @ ''To: '' @ ''+15551234567''
                 @ newline @ ''From: '' @ ''+15559876543'' @ newline
                 @ ''Error: '' @ ''Carrier rejected'')],
            isError = False\<rparr>"
    and b': "lines_of (''Message sent successfully!'' @ newline @ ''SID: '' @ ''SM1''
                 @ newline @ ''Status: '' @ ''queued'' @ newline @ ''To: '' @ ''+15551234567''
                 @ newline @ ''From: '' @ ''+15559876543'' @ newline
                 @ ''Error: '' @ ''Carrier rejected'')
      = [''Message sent successfully!'', ''SID: '' @ ''SM1'', ''Status: '' @ ''queued'',
         ''To: '' @ ''+15551234567'', ''From: '' @ ''+15559876543'',
         ''Error: '' @ ''Carrier rejected'']"
    using n6 by blast+
  from a a' b b' show ?thesis
    by (simp add: queued_message_def rejected_message_def)
qed

text \<open>
  C6 as stated fails on the count: for the response of the specification the text has five
  lines, not four, and the error line of the second response is the sixth.
\<close>

theorem summary_of_five_lines:
  "length (lines_of (text_of (fst (send_message
       (simulated [(queued_text, queued_message)] (http_answer 201 ''Created'' queued_text))
       (Some example_config) example_params)))) = 5
   \<and> length (lines_of (text_of (fst (send_message
       (simulated [(rejected_text, rejected_message)] (http_answer 201 ''Created'' rejected_text))
       (Some example_config) example_params)))) = 6
   \<and> lines_of (text_of (fst (send_message
       (simulated [(rejected_text, rejected_message)] (http_answer 201 ''Created'' rejected_text))
       (Some example_config) example_params))) ! 5 = ''Error: Carrier rejected''"
proof -
  let ?q = "[(''sid'', JStr ''SM1''), (''status'', JStr ''queued''), (''to'', JStr ''+15551234567''),
           (''from'', JStr ''+15559876543'' :: int jsval)]"
  let ?r = "?q @ [(''error_message'', JStr ''Carrier rejected'')]"
  have q: "map_of ?q ''sid'' = Some (JStr ''SM1'')" "map_of ?q ''status'' = Some (JStr ''queued'')"
    "map_of ?q ''to'' = Some (JStr ''+15551234567'')"
    "map_of ?q ''from'' = Some (JStr ''+15559876543'')"
    by simp_all
  have r: "map_of ?r ''sid'' = Some (JStr ''SM1'')" "map_of ?r ''status'' = Some (JStr ''queued'')"
    "map_of ?r ''to'' = Some (JStr ''+15551234567'')"
    "map_of ?r ''from'' = Some (JStr ''+15559876543'')"
    by simp_all
  have a: "text_of (fst (send_message
       (simulated [(queued_text, queued_message)] (http_answer 201 ''Created'' queued_text))
       (Some example_config) example_params))
     = ''Message sent successfully!'' @ newline @ ''SID: SM1'' @ newline
                 @ ''Status: queued'' @ newline @ ''To: +15551234567'' @ newline
                 @ ''From: +15559876543''"
    unfolding queued_message_def example_success_run [OF q] responseText_strings [OF q]
    by simp
  have b: "text_of (fst (send_message
       (simulated [(rejected_text, rejected_message)] (http_answer 201 ''Created'' rejected_text))
       (Some example_config) example_params))
     = ''Message sent successfully!'' @ newline @ ''SID: SM1'' @ newline
                 @ ''Status: queued'' @ newline @ ''To: +15551234567'' @ newline
                 @ ''From: +15559876543'' @ newline @ ''Error: Carrier rejected''"
    unfolding rejected_message_def
    using example_success_run [OF r, of rejected_text] responseText_strings [OF r]
    by simp
  show ?thesis
    unfolding a b by (simp add: lines_of_def newline_def)
qed

text \<open>
  C10. For a response with string fields whose \<^verbatim>\<open>error_message\<close> is present and is
  \<^verbatim>\<open>null\<close> or a string, the lines are the five of the summary, followed by the error line
  exactly when \<^verbatim>\<open>error_message\<close> is a non-empty string: present but \<^verbatim>\<open>null\<close> or empty,
  it gives no error line.
\<close>

theorem falsy_error_message_no_error_line:
  assumes "map_of kvs ''sid'' = Some (JStr sid)"
    and "map_of kvs ''status'' = Some (JStr status)"
    and "map_of kvs ''to'' = Some (JStr to)"
    and "map_of kvs ''from'' = Some (JStr from)"
    and "map_of kvs ''error_message'' = Some v"
    and "v = JNull \<or> v = JStr em"
  shows "responseText P (JObj kvs) =
           Inr ([''Message sent successfully!'', ''SID: '' @ sid, ''Status: '' @ status,
                 ''To: '' @ to, ''From: '' @ from]
                @ (if v = JStr em \<and> em \<noteq> [] then [''Error: '' @ em] else []))"
  unfolding responseText_strings [OF assms(1-4)]
  using assms(5,6) by auto

theorem falsy_error_message_no_error_line_witness:
  "responseText (simulated [] (Inl (JsError ''offline'')))
     (JObj [(''sid'', JStr ''SM1''), (''status'', JStr ''queued''), (''to'', JStr ''+15551234567''),
            (''from'', JStr ''+15559876543''), (''error_message'', JStr [])])
   = Inr [''Message sent successfully!'', ''SID: SM1'', ''Status: queued'', ''To: +15551234567'',
          ''From: +15559876543'']
   \<and> responseText (simulated [] (Inl (JsError ''offline'')))
     (JObj [(''sid'', JStr ''SM1''), (''status'', JStr ''queued''), (''to'', JStr ''+15551234567''),
            (''from'', JStr ''+15559876543''), (''error_message'', JNull)])
   = Inr [''Message sent successfully!'', ''SID: SM1'', ''Status: queued'', ''To: +15551234567'',
          ''From: +15559876543'']"
proof -
  let ?P = "simulated [] (Inl (JsError ''offline''))"
  let ?e = "[(''sid'', JStr ''SM1''), (''status'', JStr ''queued''), (''to'', JStr ''+15551234567''),
            (''from'', JStr ''+15559876543''), (''error_message'', JStr [] :: int jsval)]"
  let ?n = "[(''sid'', JStr ''SM1''), (''status'', JStr ''queued''), (''to'', JStr ''+15551234567''),
            (''from'', JStr ''+15559876543''), (''error_message'', JNull :: int jsval)]"
  have e: "map_of ?e ''sid'' = Some (JStr ''SM1'')" "map_of ?e ''status'' = Some (JStr ''queued'')"
    "map_of ?e ''to'' = Some (JStr ''+15551234567'')"
    "map_of ?e ''from'' = Some (JStr ''+15559876543'')"
    "map_of ?e ''error_message'' = Some (JStr [])"
    by simp_all
  have n: "map_of ?n ''sid'' = Some (JStr ''SM1'')" "map_of ?n ''status'' = Some (JStr ''queued'')"
    "map_of ?n ''to'' = Some (JStr ''+15551234567'')"
    "map_of ?n ''from'' = Some (JStr ''+15559876543'')"
    "map_of ?n ''error_message'' = Some JNull"
    by simp_all
  from falsy_error_message_no_error_line [OF e, of "[]" ?P]
    falsy_error_message_no_error_line [OF n, of "[]" ?P]
  show ?thesis by simp
qed

end
